theory Spec2Isabelle
  imports Complex_Main
begin

section \<open>JavaScript values\<close>

text \<open>
  Strings are \<open>string\<close>: one \<open>char\<close> per UTF-16 code unit, so the model covers the
  strings whose code units are below 256. Numbers that come out of a JSON document are exact
  rationals; integers that come out of \<open>parseInt\<close> are \<open>int\<close> (the rounding of
  values beyond \<open>2^53\<close> is not modelled). A value that may be \<open>undefined\<close> is a
  \<open>json option\<close>, with \<open>None\<close> for \<open>undefined\<close>.
\<close>

datatype json =
    JNull
  | JBool bool
  | JNum rat
  | JStr string
  | JArr "json list"
  | JObj "(string \<times> json) list"

text \<open>A thrown \<open>Error\<close>: its optional \<open>statusCode\<close> and its \<open>message\<close>.\<close>

record js_error =
  statusCode :: "nat option"
  message :: string

definition Error :: "string \<Rightarrow> js_error" where
  "Error msg = \<lparr>statusCode = None, message = msg\<rparr>"

text \<open>Truthiness, as \<open>!x\<close> and \<open>x || y\<close> read it.\<close>

fun truthy :: "json option \<Rightarrow> bool" where
  "truthy None = False"
| "truthy (Some JNull) = False"
| "truthy (Some (JBool b)) = b"
| "truthy (Some (JNum n)) = (n \<noteq> 0)"
| "truthy (Some (JStr s)) = (s \<noteq> [])"
| "truthy (Some (JArr xs)) = True"
| "truthy (Some (JObj kvs)) = True"

fun isArray :: "json option \<Rightarrow> bool" where
  "isArray (Some (JArr xs)) = True"
| "isArray v = False"

text \<open>
  Property access \<open>v.k\<close> on a value that came out of a JSON document or of a body
  parser: the own property of an object, and \<open>undefined\<close> on a string, a number, a
  boolean or an array (none of the names read by this program is a property of those).
  Reading a property of \<open>null\<close> throws a \<open>TypeError\<close>; the callers below test
  for \<open>null\<close> before they read.
\<close>

fun getField :: "json \<Rightarrow> string \<Rightarrow> json option" where
  "getField (JObj kvs) k = map_of kvs k"
| "getField v k = None"

definition TypeError :: "string \<Rightarrow> js_error" where
  "TypeError k =
     Error (''Cannot read properties of null (reading '' @ [CHR 0x27] @ k @ [CHR 0x27] @ '')'')"

subsection \<open>Strings\<close>

text \<open>White space and line terminators of ECMAScript below code unit 256.\<close>

definition isWhiteSpace :: "char \<Rightarrow> bool" where
  "isWhiteSpace c = (c \<in> set [CHR 0x09, CHR 0x0A, CHR 0x0B, CHR 0x0C, CHR 0x0D, CHR 0x20, CHR 0xA0])"

definition trim :: "string \<Rightarrow> string" where
  "trim s = rev (dropWhile isWhiteSpace (rev (dropWhile isWhiteSpace s)))"

definition startsWith :: "string \<Rightarrow> string \<Rightarrow> bool" where
  "startsWith s p = (take (length p) s = p)"

text \<open>Decimal rendering of a number, as \<open>toString\<close> and template literals give it.\<close>

definition digit_char :: "nat \<Rightarrow> char" where
  "digit_char d = ''0123456789'' ! d"

function show_nat :: "nat \<Rightarrow> string" where
  "show_nat n = (if n < 10 then [digit_char n] else show_nat (n div 10) @ [digit_char (n mod 10)])"
  by pat_completeness auto
termination
  by (relation "measure id") auto

declare show_nat.simps [simp del]

definition show_int :: "int \<Rightarrow> string" where
  "show_int i = (if i < 0 then CHR ''-'' # show_nat (nat (- i)) else show_nat (nat i))"

subsection \<open>parseInt\<close>

text \<open>
  \<open>parseInt(s)\<close> with no radix: leading white space is skipped, one sign is read, a
  \<open>0x\<close> or \<open>0X\<close> prefix selects radix 16, and the longest prefix of digits is the
  value. The result is \<open>NaN\<close> (here \<open>None\<close>) exactly when that prefix is empty.
\<close>

definition digit_val :: "nat \<Rightarrow> char \<Rightarrow> nat option" where
  "digit_val radix c =
     (let n = of_char c :: nat;
          v = (if 48 \<le> n \<and> n \<le> 57 then Some (n - 48)
               else if 97 \<le> n \<and> n \<le> 122 then Some (n - 87)
               else if 65 \<le> n \<and> n \<le> 90 then Some (n - 55)
               else None)
      in case v of None \<Rightarrow> None | Some d \<Rightarrow> if d < radix then Some d else None)"

definition isDigit :: "nat \<Rightarrow> char \<Rightarrow> bool" where
  "isDigit radix c = (digit_val radix c \<noteq> None)"

definition digits_value :: "nat \<Rightarrow> string \<Rightarrow> nat" where
  "digits_value radix ds =
     foldl (\<lambda>acc c. acc * radix + (case digit_val radix c of None \<Rightarrow> 0 | Some d \<Rightarrow> d)) 0 ds"

definition parseInt :: "string \<Rightarrow> int option" where
  "parseInt s =
     (let s1 = dropWhile isWhiteSpace s;
          sign = (if startsWith s1 ''-'' then - 1 else 1 :: int);
          s2 = (if startsWith s1 ''-'' \<or> startsWith s1 ''+'' then drop 1 s1 else s1);
          hex = (startsWith s2 ''0x'' \<or> startsWith s2 ''0X'');
          radix = (if hex then 16 else 10 :: nat);
          s3 = (if hex then drop 2 s2 else s2);
          ds = takeWhile (isDigit radix) s3
      in if ds = [] then None else Some (sign * int (digits_value radix ds)))"

section \<open>AzureOpenAIService.parseRecommendations\<close>

text \<open>
  \<open>content.replace(/```json\s*\n?/g, '')\<close> and \<open>.replace(/```\s*\n?/g, '')\<close>: every
  occurrence of the marker, from left to right, is removed together with the white space that
  follows it (\<open>\s*\<close> is greedy and already takes the line feed that \<open>\n?\<close> would).
\<close>

function removeFences :: "string \<Rightarrow> string \<Rightarrow> string" where
  "removeFences marker [] = []"
| "removeFences marker (c # cs) =
     (if marker \<noteq> [] \<and> startsWith (c # cs) marker
      then removeFences marker (dropWhile isWhiteSpace (drop (length marker) (c # cs)))
      else c # removeFences marker cs)"
  by pat_completeness auto
termination
proof (relation "measure (\<lambda>(marker, s). length s)")
  fix marker :: string and c :: char and cs :: string
  assume "marker \<noteq> [] \<and> startsWith (c # cs) marker"
  then have "length (drop (length marker) (c # cs)) < length (c # cs)"
    by (cases marker) auto
  moreover have "length (dropWhile isWhiteSpace (drop (length marker) (c # cs)))
                 \<le> length (drop (length marker) (c # cs))"
    by (rule length_dropWhile_le)
  ultimately show "((marker, dropWhile isWhiteSpace (drop (length marker) (c # cs))), (marker, c # cs))
                   \<in> measure (\<lambda>(marker, s). length s)"
    by simp
qed auto

definition cleanContent :: "string \<Rightarrow> string" where
  "cleanContent content = trim (removeFences ''```'' (removeFences ''```json'' content))"

text \<open>
  The two validation loops. \<open>forEach\<close> visits the elements in order and the first
  \<open>throw\<close> ends the whole validation; the index is carried for the message.
\<close>

definition checkTestCase :: "nat \<Rightarrow> nat \<Rightarrow> json \<Rightarrow> js_error + unit" where
  "checkTestCase index tcIndex testCase =
     (if testCase = JNull then Inl (TypeError ''title'')
      else if \<not> truthy (getField testCase ''title'') \<or> \<not> truthy (getField testCase ''description'')
              \<or> \<not> isArray (getField testCase ''steps'')
              \<or> \<not> truthy (getField testCase ''expectedResult'')
      then Inl (Error (''Invalid test case structure at recommendation '' @ show_nat index
                        @ '', test case '' @ show_nat tcIndex))
      else Inr ())"

fun checkTestCases :: "nat \<Rightarrow> nat \<Rightarrow> json list \<Rightarrow> js_error + unit" where
  "checkTestCases index tcIndex [] = Inr ()"
| "checkTestCases index tcIndex (testCase # rest) =
     (case checkTestCase index tcIndex testCase of
        Inl e \<Rightarrow> Inl e
      | Inr u \<Rightarrow> checkTestCases index (Suc tcIndex) rest)"

definition checkRecommendation :: "nat \<Rightarrow> json \<Rightarrow> js_error + unit" where
  "checkRecommendation index rec =
     (if rec = JNull then Inl (TypeError ''name'')
      else if \<not> truthy (getField rec ''name'') \<or> \<not> truthy (getField rec ''description'')
              \<or> \<not> truthy (getField rec ''objective'')
              \<or> \<not> isArray (getField rec ''testCases'')
      then Inl (Error (''Invalid recommendation structure at index '' @ show_nat index))
      else (case getField rec ''testCases'' of
              Some (JArr tcs) \<Rightarrow> checkTestCases index 0 tcs
            | _ \<Rightarrow> Inr ()))"

fun checkRecommendations :: "nat \<Rightarrow> json list \<Rightarrow> js_error + unit" where
  "checkRecommendations index [] = Inr ()"
| "checkRecommendations index (rec # rest) =
     (case checkRecommendation index rec of
        Inl e \<Rightarrow> Inl e
      | Inr u \<Rightarrow> checkRecommendations (Suc index) rest)"

text \<open>
  \<open>JSON.parse\<close> is the runtime's: it is a parameter, giving the parsed value or the
  \<open>SyntaxError\<close> it throws. The \<open>catch\<close> block rethrows every error with the
  prefix put before its message.
\<close>

definition parseRecommendations :: "(string \<Rightarrow> js_error + json) \<Rightarrow> string \<Rightarrow> js_error + json" where
  "parseRecommendations JSON_parse content =
     (case (case JSON_parse (cleanContent content) of
              Inl e \<Rightarrow> Inl e
            | Inr parsed \<Rightarrow>
                (case parsed of
                   JArr recs \<Rightarrow>
                     (case checkRecommendations 0 recs of Inl e \<Rightarrow> Inl e | Inr u \<Rightarrow> Inr parsed)
                 | _ \<Rightarrow> Inl (Error ''Response must be an array of test plan recommendations''))) of
        Inl error \<Rightarrow> Inl (Error (''Failed to parse recommendations: '' @ message error))
      | Inr recommendations \<Rightarrow> Inr recommendations)"

section \<open>server.ts: data\<close>

record Connection =
  resourceId :: string
  connectionId :: string
  github_url :: json
  prd :: json
  ado_url :: json
  website_url :: json

record TestCase =
  tc_name :: json
  tc_steps :: "json list"
  tc_issueId :: "string option"
  tc_status :: "string option"

record TestSuite =
  ts_name :: string
  ts_testCaseId :: string
  ts_testCases :: "TestCase list"

text \<open>
  The handlers never check that a body field is a string: \<open>github_url\<close>, \<open>prd\<close>,
  \<open>ado_url\<close>, \<open>website_url\<close>, and the \<open>title\<close> and \<open>body\<close> that become a test
  case's \<open>name\<close> and only step, are stored as whatever JSON value was sent.

  A \<open>TestSuite\<close> is an object that the issue handler updates in place, so suites live in
  a store of objects and the \<open>testSuites\<close> map holds lists of references into it.
  \<open>adoClient\<close> is \<open>null\<close> until the client object is constructed; it is assigned
  before \<open>initialize()\<close> has run.
\<close>

type_synonym ref = nat

datatype client = Initializing | Ready

record server_state =
  adoClient :: "client option"
  connections :: "string \<rightharpoonup> Connection"
  testSuites :: "string \<rightharpoonup> ref list"
  objects :: "ref \<rightharpoonup> TestSuite"
  nextRef :: ref

definition initial_state :: server_state where
  "initial_state = \<lparr>adoClient = None, connections = Map.empty, testSuites = Map.empty,
                     objects = Map.empty, nextRef = 0\<rparr>"

subsection \<open>Requests and responses\<close>

text \<open>
  A request as the handlers see it after the body and query parsers: the method, the path
  split at \<open>/\<close> (segments hold no escapes), the URL as it was sent, the parsed query and the parsed body. The
  methods are those the server registers routes for. A query value is a string, or an array
  or object when the parameter is repeated or bracketed.
\<close>

datatype http_method = GET | POST | PUT | DELETE

datatype qval = QStr string | QArr "qval list" | QObj "(string \<times> qval) list"

record request =
  req_method :: http_method
  originalUrl :: string
  path :: "string list"
  query :: "(string \<times> qval) list"
  body :: json

record response =
  status :: nat
  payload :: json

definition json_status :: "nat \<Rightarrow> (string \<times> json) list \<Rightarrow> response" where
  "json_status code kvs = \<lparr>status = code, payload = JObj kvs\<rparr>"

definition reqPath :: "request \<Rightarrow> string" where
  "reqPath req = (if path req = [] then ''/'' else concat (map (\<lambda>seg. CHR ''/'' # seg) (path req)))"

subsection \<open>The vendor client and the rest of the environment\<close>

record plan =
  plan_id :: "int option"
  plan_name :: "string option"
  plan_rest :: "(string \<times> json) list"

definition plan_json :: "plan \<Rightarrow> json" where
  "plan_json p =
     JObj ((case plan_id p of None \<Rightarrow> [] | Some i \<Rightarrow> [(''id'', JNum (of_int i))])
           @ (case plan_name p of None \<Rightarrow> [] | Some n \<Rightarrow> [(''name'', JStr n)])
           @ plan_rest p)"

text \<open>
  \<open>AzureDevOpsTestPlansClient\<close> is outside these sources. Each of its methods is a
  function of the environment that gives what the call returns or the error it throws;
  \<open>vendor_call\<close> names a call, so that a handler can report the calls it made.
  \<open>now\<close> is \<open>new Date().toISOString()\<close> and \<open>random36\<close> is
  \<open>Math.random().toString(36)\<close>.
\<close>

datatype vendor_call =
    GetAllTestPlans bool bool
  | GetTestPlan int
  | CreateTestPlan "json option list"
  | UpdateTestPlan int json
  | DeleteTestPlan int
  | CreateTestCase "json option list"
  | GetTestCaseDetails int
  | GetMultipleTestCaseDetails "json list"
  | AddTestCasesToSuite int int json
  | GetTestCaseList int int
  | GetTestResultsFromBuildId int

record env =
  getAllTestPlans :: "bool \<Rightarrow> bool \<Rightarrow> js_error + plan list"
  getTestPlan :: "int \<Rightarrow> js_error + json"
  createTestPlan :: "json option list \<Rightarrow> js_error + json"
  updateTestPlan :: "int \<Rightarrow> json \<Rightarrow> js_error + json"
  deleteTestPlan :: "int \<Rightarrow> js_error + unit"
  createTestCase :: "json option list \<Rightarrow> js_error + json"
  getTestCaseDetails :: "int \<Rightarrow> js_error + json"
  getMultipleTestCaseDetails :: "json list \<Rightarrow> js_error + json"
  addTestCasesToSuite :: "int \<Rightarrow> int \<Rightarrow> json \<Rightarrow> js_error + json"
  getTestCaseList :: "int \<Rightarrow> int \<Rightarrow> js_error + json list"
  getTestResultsFromBuildId :: "int \<Rightarrow> js_error + json"
  now :: string
  random36 :: string

text \<open>The outcome of a handler that leaves the registries alone: the response and the calls made.\<close>

type_synonym api_result = "response \<times> vendor_call list"

text \<open>
  \<open>errorHandler\<close>. A status code outside 100..999 makes the write of the response throw
  inside the handler, and Express then answers with its own 500 page, whose text is not
  modelled.
\<close>

definition finalHandlerPage :: response where
  "finalHandlerPage = \<lparr>status = 500, payload = JNull\<rparr>"

definition errorHandler :: "env \<Rightarrow> request \<Rightarrow> js_error \<Rightarrow> response" where
  "errorHandler e req error =
     (let code = (case statusCode error of None \<Rightarrow> 500 | Some c \<Rightarrow> if c = 0 then 500 else c)
      in if code < 100 \<or> 999 < code then finalHandlerPage
         else json_status code
                [(''error'', JStr ''API Error''),
                 (''message'', JStr (if message error = [] then ''Internal server error'' else message error)),
                 (''timestamp'', JStr (now e)),
                 (''path'', JStr (reqPath req))])"

definition notInitialized :: response where
  "notInitialized =
     json_status 500
       [(''error'', JStr ''Azure DevOps client not initialized''),
        (''message'', JStr ''Server is starting up, please try again in a moment'')]"

section \<open>server.ts: the handlers of the /api routes\<close>

text \<open>
  Every handler below is the body of the \<open>try\<close> block of its route; an error thrown by
  the vendor call goes to \<open>next(error)\<close>, that is to \<open>errorHandler\<close>.
\<close>

definition testplans_list :: "env \<Rightarrow> request \<Rightarrow> api_result" where
  "testplans_list e req =
     (let filterActivePlans = (map_of (query req) ''filterActivePlans'' \<noteq> Some (QStr ''false''));
          includePlanDetails = (map_of (query req) ''includePlanDetails'' = Some (QStr ''true''))
      in case getAllTestPlans e filterActivePlans includePlanDetails of
           Inl error \<Rightarrow> (errorHandler e req error, [GetAllTestPlans filterActivePlans includePlanDetails])
         | Inr testPlans \<Rightarrow>
             (json_status 200
                [(''success'', JBool True),
                 (''data'', JArr (map plan_json testPlans)),
                 (''count'', JNum (of_nat (length testPlans))),
                 (''filters'', JObj [(''filterActivePlans'', JBool filterActivePlans),
                                     (''includePlanDetails'', JBool includePlanDetails)])],
              [GetAllTestPlans filterActivePlans includePlanDetails]))"

definition invalidTestPlanId :: response where
  "invalidTestPlanId =
     json_status 400 [(''error'', JStr ''Invalid test plan ID''),
                      (''message'', JStr ''Test plan ID must be a number'')]"

definition testplans_get :: "env \<Rightarrow> request \<Rightarrow> string \<Rightarrow> api_result" where
  "testplans_get e req idStr =
     (case parseInt idStr of
        None \<Rightarrow> (invalidTestPlanId, [])
      | Some testPlanId \<Rightarrow>
          (case getTestPlan e testPlanId of
             Inl error \<Rightarrow> (errorHandler e req error, [GetTestPlan testPlanId])
           | Inr testPlan \<Rightarrow>
               (if \<not> truthy (Some testPlan)
                then json_status 404
                       [(''error'', JStr ''Test plan not found''),
                        (''message'', JStr (''Test plan with ID '' @ show_int testPlanId @ '' not found''))]
                else json_status 200 [(''success'', JBool True), (''data'', testPlan)],
                [GetTestPlan testPlanId])))"

definition testplans_create :: "env \<Rightarrow> request \<Rightarrow> api_result" where
  "testplans_create e req =
     (let name = getField (body req) ''name'';
          iteration = getField (body req) ''iteration'';
          args = [name, iteration, getField (body req) ''description'',
                  getField (body req) ''startDate'', getField (body req) ''endDate'',
                  getField (body req) ''areaPath'']
      in if \<not> truthy name \<or> \<not> truthy iteration
         then (json_status 400 [(''error'', JStr ''Missing required fields''),
                                (''message'', JStr ''name and iteration are required'')], [])
         else (case createTestPlan e args of
                 Inl error \<Rightarrow> (errorHandler e req error, [CreateTestPlan args])
               | Inr testPlan \<Rightarrow>
                   (json_status 201 [(''success'', JBool True), (''data'', testPlan),
                                     (''message'', JStr ''Test plan created successfully'')],
                    [CreateTestPlan args])))"

definition testplans_update :: "env \<Rightarrow> request \<Rightarrow> string \<Rightarrow> api_result" where
  "testplans_update e req idStr =
     (case parseInt idStr of
        None \<Rightarrow> (invalidTestPlanId, [])
      | Some testPlanId \<Rightarrow>
          (let updates = body req
           in if \<not> truthy (getField updates ''iteration'')
              then (json_status 400 [(''error'', JStr ''Missing required field''),
                                     (''message'', JStr ''iteration is required for updates'')], [])
              else (case updateTestPlan e testPlanId updates of
                      Inl error \<Rightarrow> (errorHandler e req error, [UpdateTestPlan testPlanId updates])
                    | Inr updatedTestPlan \<Rightarrow>
                        (json_status 200 [(''success'', JBool True), (''data'', updatedTestPlan),
                                          (''message'', JStr ''Test plan updated successfully'')],
                         [UpdateTestPlan testPlanId updates]))))"

definition testplans_delete :: "env \<Rightarrow> request \<Rightarrow> string \<Rightarrow> api_result" where
  "testplans_delete e req idStr =
     (case parseInt idStr of
        None \<Rightarrow> (invalidTestPlanId, [])
      | Some testPlanId \<Rightarrow>
          (case deleteTestPlan e testPlanId of
             Inl error \<Rightarrow> (errorHandler e req error, [DeleteTestPlan testPlanId])
           | Inr u \<Rightarrow>
               (json_status 200 [(''success'', JBool True),
                                 (''message'', JStr ''Test plan deleted successfully'')],
                [DeleteTestPlan testPlanId])))"

definition testcases_create :: "env \<Rightarrow> request \<Rightarrow> api_result" where
  "testcases_create e req =
     (let title = getField (body req) ''title'';
          args = [title, getField (body req) ''steps'', getField (body req) ''priority'',
                  getField (body req) ''areaPath'', getField (body req) ''iterationPath'']
      in if \<not> truthy title
         then (json_status 400 [(''error'', JStr ''Missing required field''),
                                (''message'', JStr ''title is required'')], [])
         else (case createTestCase e args of
                 Inl error \<Rightarrow> (errorHandler e req error, [CreateTestCase args])
               | Inr testCase \<Rightarrow>
                   (json_status 201 [(''success'', JBool True), (''data'', testCase),
                                     (''message'', JStr ''Test case created successfully'')],
                    [CreateTestCase args])))"

definition testcases_get :: "env \<Rightarrow> request \<Rightarrow> string \<Rightarrow> api_result" where
  "testcases_get e req idStr =
     (case parseInt idStr of
        None \<Rightarrow> (json_status 400 [(''error'', JStr ''Invalid test case ID'')], [])
      | Some n \<Rightarrow>
          (case getTestCaseDetails e n of
             Inl error \<Rightarrow> (errorHandler e req error, [GetTestCaseDetails n])
           | Inr testCaseDetails \<Rightarrow>
               (\<lparr>status = 200, payload = testCaseDetails\<rparr>, [GetTestCaseDetails n])))"

text \<open>\<open>Number.isInteger(id) && id > 0\<close>\<close>

fun isPositiveInteger :: "json \<Rightarrow> bool" where
  "isPositiveInteger (JNum q) = (of_int \<lfloor>q\<rfloor> = q \<and> q > 0)"
| "isPositiveInteger v = False"

definition testcases_batch :: "env \<Rightarrow> request \<Rightarrow> api_result" where
  "testcases_batch e req =
     (case getField (body req) ''ids'' of
        Some (JArr ids) \<Rightarrow>
          (if length ids = 0
           then (json_status 400 [(''error'', JStr ''ids array is required and cannot be empty'')], [])
           else if length ids > 100
           then (json_status 400 [(''error'', JStr ''Maximum 100 test case IDs allowed per request'')], [])
           else (let validIds = filter isPositiveInteger ids
                 in if length validIds \<noteq> length ids
                    then (json_status 400 [(''error'', JStr ''All IDs must be positive integers'')], [])
                    else (case getMultipleTestCaseDetails e validIds of
                            Inl error \<Rightarrow> (errorHandler e req error, [GetMultipleTestCaseDetails validIds])
                          | Inr testCaseDetails \<Rightarrow>
                              (\<lparr>status = 200, payload = testCaseDetails\<rparr>,
                               [GetMultipleTestCaseDetails validIds]))))
      | _ \<Rightarrow> (json_status 400 [(''error'', JStr ''ids array is required and cannot be empty'')], []))"

definition invalidIds :: response where
  "invalidIds =
     json_status 400 [(''error'', JStr ''Invalid IDs''),
                      (''message'', JStr ''Plan ID and Suite ID must be numbers'')]"

definition suite_add :: "env \<Rightarrow> request \<Rightarrow> string \<Rightarrow> string \<Rightarrow> api_result" where
  "suite_add e req planIdStr suiteIdStr =
     (case (parseInt planIdStr, parseInt suiteIdStr) of
        (Some planId, Some suiteId) \<Rightarrow>
          (case getField (body req) ''testCaseIds'' of
             None \<Rightarrow> (json_status 400 [(''error'', JStr ''Missing required field''),
                                        (''message'', JStr ''testCaseIds is required'')], [])
           | Some testCaseIds \<Rightarrow>
               if \<not> truthy (Some testCaseIds)
               then (json_status 400 [(''error'', JStr ''Missing required field''),
                                      (''message'', JStr ''testCaseIds is required'')], [])
               else (case addTestCasesToSuite e planId suiteId testCaseIds of
                       Inl error \<Rightarrow> (errorHandler e req error, [AddTestCasesToSuite planId suiteId testCaseIds])
                     | Inr result \<Rightarrow>
                         (json_status 200 [(''success'', JBool True), (''data'', result),
                                           (''message'', JStr ''Test cases added to suite successfully'')],
                          [AddTestCasesToSuite planId suiteId testCaseIds])))
      | _ \<Rightarrow> (invalidIds, []))"

definition suite_list :: "env \<Rightarrow> request \<Rightarrow> string \<Rightarrow> string \<Rightarrow> api_result" where
  "suite_list e req planIdStr suiteIdStr =
     (case (parseInt planIdStr, parseInt suiteIdStr) of
        (Some planId, Some suiteId) \<Rightarrow>
          (case getTestCaseList e planId suiteId of
             Inl error \<Rightarrow> (errorHandler e req error, [GetTestCaseList planId suiteId])
           | Inr testCases \<Rightarrow>
               (json_status 200 [(''success'', JBool True), (''data'', JArr testCases),
                                 (''count'', JNum (of_nat (length testCases))),
                                 (''planId'', JNum (of_int planId)),
                                 (''suiteId'', JNum (of_int suiteId))],
                [GetTestCaseList planId suiteId]))
      | _ \<Rightarrow> (invalidIds, []))"

definition build_results :: "env \<Rightarrow> request \<Rightarrow> string \<Rightarrow> api_result" where
  "build_results e req buildIdStr =
     (case parseInt buildIdStr of
        None \<Rightarrow> (json_status 400 [(''error'', JStr ''Invalid build ID''),
                                   (''message'', JStr ''Build ID must be a number'')], [])
      | Some buildId \<Rightarrow>
          (case getTestResultsFromBuildId e buildId of
             Inl error \<Rightarrow> (errorHandler e req error, [GetTestResultsFromBuildId buildId])
           | Inr testResults \<Rightarrow>
               (json_status 200 [(''success'', JBool True), (''data'', testResults),
                                 (''buildId'', JNum (of_int buildId))],
                [GetTestResultsFromBuildId buildId])))"

section \<open>server.ts: the handlers of the resource routes\<close>

text \<open>The outcome of a handler that may write the registries.\<close>

type_synonym result = "response \<times> server_state \<times> vendor_call list"

definition randomId :: "env \<Rightarrow> nat \<Rightarrow> string" where
  \<comment> \<open>\<open>Math.random().toString(36).substr(2, n)\<close>\<close>
  "randomId e n = take n (drop 2 (random36 e))"

definition saveConnection :: "env \<Rightarrow> server_state \<Rightarrow> request \<Rightarrow> string \<Rightarrow> result" where
  "saveConnection e s req rid =
     (case (getField (body req) ''github_url'', getField (body req) ''prd'',
            getField (body req) ''ado_url'', getField (body req) ''website_url'') of
        (Some g, Some p, Some a, Some w) \<Rightarrow>
          if \<not> truthy (Some g) \<or> \<not> truthy (Some p) \<or> \<not> truthy (Some a) \<or> \<not> truthy (Some w)
          then (json_status 400
                  [(''error'', JStr ''Missing required fields''),
                   (''message'', JStr ''github_url, prd, ado_url, and website_url are required'')], s, [])
          else
            (let cid = randomId e 10;
                 connection = \<lparr>resourceId = rid, connectionId = cid, github_url = g, prd = p,
                               ado_url = a, website_url = w\<rparr>
             in (json_status 200
                   [(''message'', JStr ''Connection saved successfully''),
                    (''status'', JStr ''success''),
                    (''resourceId'', JStr rid),
                    (''connectionId'', JStr cid)],
                 s\<lparr>connections := (connections s)(rid \<mapsto> connection)\<rparr>, []))
      | _ \<Rightarrow>
          (json_status 400
             [(''error'', JStr ''Missing required fields''),
              (''message'', JStr ''github_url, prd, ado_url, and website_url are required'')], s, []))"

definition getConnection :: "env \<Rightarrow> server_state \<Rightarrow> request \<Rightarrow> string \<Rightarrow> result" where
  "getConnection e s req rid =
     (case connections s rid of
        None \<Rightarrow>
          (json_status 404
             [(''error'', JStr ''Connection not found''),
              (''message'', JStr (''No connection found for resourceId: '' @ rid))], s, [])
      | Some connection \<Rightarrow>
          (json_status 200
             [(''github_url'', github_url connection),
              (''prd'', prd connection),
              (''ado_url'', ado_url connection),
              (''website_url'', website_url connection),
              (''resourceId'', JStr (resourceId connection)),
              (''connectionId'', JStr (connectionId connection))], s, []))"

definition connectionNotFound :: "string \<Rightarrow> response" where
  "connectionNotFound rid =
     json_status 404
       [(''error'', JStr ''Connection not found''),
        (''message'', JStr (''No connection found for resourceId: '' @ rid
                            @ ''. Please save connection first.''))]"

definition testCase_json :: "TestCase \<Rightarrow> json" where
  "testCase_json tc =
     JObj ([(''name'', tc_name tc), (''steps'', JArr (tc_steps tc))]
           @ (case tc_issueId tc of None \<Rightarrow> [] | Some i \<Rightarrow> [(''issueId'', JStr i)])
           @ (case tc_status tc of None \<Rightarrow> [] | Some st \<Rightarrow> [(''status'', JStr st)]))"

definition testSuite_json :: "TestSuite \<Rightarrow> json" where
  "testSuite_json suite =
     JObj [(''name'', JStr (ts_name suite)),
           (''testCaseId'', JStr (ts_testCaseId suite)),
           (''testCases'', JArr (map testCase_json (ts_testCases suite)))]"

text \<open>The suites a list of references stands for, and \<open>res.json({ suites })\<close>.\<close>

definition deref :: "server_state \<Rightarrow> ref list \<Rightarrow> TestSuite list" where
  "deref s refs = List.map_filter (objects s) refs"

definition suitesOf :: "server_state \<Rightarrow> string \<Rightarrow> TestSuite list option" where
  "suitesOf s rid = map_option (deref s) (testSuites s rid)"

definition suites_response :: "server_state \<Rightarrow> ref list \<Rightarrow> response" where
  "suites_response s refs = json_status 200 [(''suites'', JArr (map testSuite_json (deref s refs)))]"

text \<open>A new object in the store.\<close>

definition alloc :: "TestSuite \<Rightarrow> server_state \<Rightarrow> ref \<times> server_state" where
  "alloc suite s = (nextRef s, s\<lparr>objects := (objects s)(nextRef s \<mapsto> suite), nextRef := Suc (nextRef s)\<rparr>)"

definition planSuite :: "plan \<Rightarrow> int \<Rightarrow> TestSuite" where
  "planSuite p pid =
     \<lparr>ts_name = (case plan_name p of
                    None \<Rightarrow> ''Test Plan '' @ show_int pid
                  | Some n \<Rightarrow> if n = [] then ''Test Plan '' @ show_int pid else n),
      ts_testCaseId = show_int pid,
      ts_testCases =
        [\<lparr>tc_name = JStr (''Sample test case for ''
                          @ (case plan_name p of None \<Rightarrow> ''undefined'' | Some n \<Rightarrow> n)),
          tc_steps = [JStr ''Step 1: Navigate to application'',
                      JStr ''Step 2: Perform test action'',
                      JStr ''Step 3: Verify expected result''],
          tc_issueId = None, tc_status = None\<rparr>]\<rparr>"

text \<open>The loop over the plans: \<open>suites.push(testSuite)\<close> for every plan with a truthy id.\<close>

fun synthesize :: "plan list \<Rightarrow> server_state \<Rightarrow> ref list \<times> server_state" where
  "synthesize [] s = ([], s)"
| "synthesize (p # ps) s =
     (case plan_id p of
        None \<Rightarrow> synthesize ps s
      | Some pid \<Rightarrow>
          if pid = 0 then synthesize ps s
          else (let (r, s1) = alloc (planSuite p pid) s;
                    (rs, s2) = synthesize ps s1
                in (r # rs, s2)))"

definition adoPlans :: "env \<Rightarrow> server_state \<Rightarrow> request \<Rightarrow> string \<Rightarrow> result" where
  "adoPlans e s req rid =
     (case connections s rid of
        None \<Rightarrow> (connectionNotFound rid, s, [])
      | Some connection \<Rightarrow>
          (case getAllTestPlans e True True of
             Inl error \<Rightarrow>
               (json_status 500 [(''error'', JStr ''Failed to fetch ADO plans''),
                                 (''details'', JStr (message error))], s, [GetAllTestPlans True True])
           | Inr testPlans \<Rightarrow>
               (let (suites, s1) = synthesize testPlans s;
                    s2 = s1\<lparr>testSuites := (testSuites s1)(rid \<mapsto> suites)\<rparr>
                in (suites_response s2 suites, s2, [GetAllTestPlans True True]))))"

text \<open>
  \<open>suites.map(suite => { if (suite.testCaseId === testCaseId) { suite.testCases = ...;
  issueCreated = true } return suite })\<close>: the suite objects are written in place, the
  array of references is copied unchanged. A reference to no object cannot occur in a state
  the handlers build; the loop passes over it.
\<close>

definition markTestCase :: "string \<Rightarrow> TestCase \<Rightarrow> TestCase" where
  "markTestCase issueId testCase = testCase\<lparr>tc_issueId := Some issueId, tc_status := Some ''Creating''\<rparr>"

fun markSuites :: "string \<Rightarrow> string \<Rightarrow> ref list \<Rightarrow> (ref \<rightharpoonup> TestSuite) \<times> bool \<Rightarrow> (ref \<rightharpoonup> TestSuite) \<times> bool" where
  "markSuites testCaseId issueId [] (objs, issueCreated) = (objs, issueCreated)"
| "markSuites testCaseId issueId (r # rs) (objs, issueCreated) =
     (case objs r of
        None \<Rightarrow> markSuites testCaseId issueId rs (objs, issueCreated)
      | Some suite \<Rightarrow>
          if ts_testCaseId suite = testCaseId
          then markSuites testCaseId issueId rs
                 (objs(r \<mapsto> suite\<lparr>ts_testCases := map (markTestCase issueId) (ts_testCases suite)\<rparr>), True)
          else markSuites testCaseId issueId rs (objs, issueCreated))"

text \<open>
  The four \<open>console.log\<close> lines after the suites are stored put \<open>title\<close>,
  \<open>connection.github_url\<close>, \<open>labels?.join(', ')\<close> and \<open>assignees?.join(', ')\<close>
  into template literals. Conversion to a string throws on an object that has an own
  \<open>toString\<close> property (never a function in a JSON document); an array is converted by
  joining its elements, \<open>null\<close> elements giving the empty string. \<open>labels?.join\<close>
  reads nothing when \<open>labels\<close> is \<open>undefined\<close> or \<open>null\<close>, and on a value that
  is not an array \<open>join\<close> is not a function. The first error ends the handler in its
  \<open>catch\<close> block.
\<close>

fun convertible :: "json \<Rightarrow> bool" where
  "convertible (JObj kvs) = (map_of kvs ''toString'' = None)"
| "convertible (JArr xs) = list_all (\<lambda>x. x = JNull \<or> convertible x) xs"
| "convertible v = True"

fun joinError :: "string \<Rightarrow> json option \<Rightarrow> string option" where
  "joinError name None = None"
| "joinError name (Some JNull) = None"
| "joinError name (Some (JArr xs)) =
     (if convertible (JArr xs) then None else Some ''Cannot convert object to primitive value'')"
| "joinError name (Some v) = Some (name @ ''?.join is not a function'')"

definition logError :: "request \<Rightarrow> json \<Rightarrow> Connection \<Rightarrow> string option" where
  "logError req title connection =
     (if \<not> convertible title then Some ''Cannot convert object to primitive value''
      else if \<not> convertible (github_url connection) then Some ''Cannot convert object to primitive value''
      else case joinError ''labels'' (getField (body req) ''labels'') of
             Some msg \<Rightarrow> Some msg
           | None \<Rightarrow> joinError ''assignees'' (getField (body req) ''assignees''))"

definition createIssue :: "env \<Rightarrow> server_state \<Rightarrow> request \<Rightarrow> string \<Rightarrow> string \<Rightarrow> result" where
  "createIssue e s req rid testCaseId =
     (case connections s rid of
        None \<Rightarrow> (connectionNotFound rid, s, [])
      | Some connection \<Rightarrow>
          (case (getField (body req) ''title'', getField (body req) ''body'') of
             (Some title, Some body') \<Rightarrow>
               if \<not> truthy (Some title) \<or> \<not> truthy (Some body')
               then (json_status 400 [(''error'', JStr ''Missing required fields''),
                                      (''message'', JStr ''title and body are required'')], s, [])
               else
                 (let suites = (case testSuites s rid of None \<Rightarrow> [] | Some refs \<Rightarrow> refs);
                      issueId = randomId e 8;
                      (objs, issueCreated) = markSuites testCaseId issueId suites (objects s, False);
                      s1 = s\<lparr>objects := objs\<rparr>;
                      (suites1, s2) =
                        (if \<not> issueCreated
                         then (let newSuite =
                                     \<lparr>ts_name = ''GitHub Issue Suite'', ts_testCaseId = testCaseId,
                                      ts_testCases = [\<lparr>tc_name = title, tc_steps = [body'],
                                                       tc_issueId = Some issueId,
                                                       tc_status = Some ''Creating''\<rparr>]\<rparr>;
                                   (r, s') = alloc newSuite s1
                               in (suites @ [r], s'))
                         else (suites, s1));
                      s3 = s2\<lparr>testSuites := (testSuites s2)(rid \<mapsto> suites1)\<rparr>
                  in case logError req title connection of
                       Some msg \<Rightarrow>
                         (json_status 500 [(''error'', JStr ''Failed to create GitHub issue''),
                                           (''details'', JStr msg)], s3, [])
                     | None \<Rightarrow> (suites_response s3 suites1, s3, []))
           | _ \<Rightarrow>
               (json_status 400 [(''error'', JStr ''Missing required fields''),
                                 (''message'', JStr ''title and body are required'')], s, [])))"

section \<open>server.ts: the application\<close>

text \<open>
  A path pattern is a list of literal segments and parameters. Matching is Express's default:
  literals are compared without regard to case, a parameter takes one non-empty segment.
\<close>

datatype seg = L string | P

definition toLowerCase :: "char \<Rightarrow> char" where
  "toLowerCase c =
     (case map_of (zip ''ABCDEFGHIJKLMNOPQRSTUVWXYZ'' ''abcdefghijklmnopqrstuvwxyz'') c of
        None \<Rightarrow> c
      | Some l \<Rightarrow> l)"

fun matchPath :: "seg list \<Rightarrow> string list \<Rightarrow> string list option" where
  "matchPath [] [] = Some []"
| "matchPath (L l # pat) (x # xs) = (if map toLowerCase x = l then matchPath pat xs else None)"
| "matchPath (P # pat) (x # xs) =
     (if x = [] then None else map_option ((#) x) (matchPath pat xs))"
| "matchPath pat xs = None"

datatype handler =
    H_health | H_root
  | H_testplans_list | H_testplans_get | H_testplans_create | H_testplans_update
  | H_testplans_delete | H_testcases_create | H_testcases_get | H_testcases_batch
  | H_suite_add | H_suite_list | H_build_results
  | H_notFound
  | H_saveConnection | H_getConnection | H_adoPlans | H_createIssue

text \<open>
  A layer of the application: a route with its method, its path, whether
  \<open>ensureClientInitialized\<close> stands before the handler, and the handler; or a middleware
  mounted with \<open>app.use('*', ...)\<close>, which takes every request that reaches it. The list is
  in the order of the registrations in the file.
\<close>

datatype layer = Route http_method "seg list" bool handler | Use handler

definition app :: "layer list" where
  "app =
     [Route GET [L ''health''] False H_health,
      Route GET [] False H_root,
      Route GET [L ''api'', L ''testplans''] True H_testplans_list,
      Route GET [L ''api'', L ''testplans'', P] True H_testplans_get,
      Route POST [L ''api'', L ''testplans''] True H_testplans_create,
      Route PUT [L ''api'', L ''testplans'', P] True H_testplans_update,
      Route DELETE [L ''api'', L ''testplans'', P] True H_testplans_delete,
      Route POST [L ''api'', L ''testcases''] True H_testcases_create,
      Route GET [L ''api'', L ''testcases'', P] True H_testcases_get,
      Route POST [L ''api'', L ''testcases'', L ''batch''] True H_testcases_batch,
      Route POST [L ''api'', L ''testplans'', P, L ''suites'', P, L ''testcases''] True H_suite_add,
      Route GET [L ''api'', L ''testplans'', P, L ''suites'', P, L ''testcases''] True H_suite_list,
      Route GET [L ''api'', L ''builds'', P, L ''testresults''] True H_build_results,
      Use H_notFound,
      Route POST [P, L ''saveconnection''] False H_saveConnection,
      Route GET [P] False H_getConnection,
      Route GET [P, L ''ado_plans''] True H_adoPlans,
      Route POST [P, L ''createissue'', P] False H_createIssue]"

text \<open>
  No handler passes a request on with \<open>next()\<close>, so the first layer that matches answers.
\<close>

fun dispatch :: "layer list \<Rightarrow> request \<Rightarrow> (bool \<times> handler \<times> string list) option" where
  "dispatch [] req = None"
| "dispatch (Use h # ls) req = Some (False, h, [])"
| "dispatch (Route m pat gated h # ls) req =
     (if req_method req = m
      then (case matchPath pat (path req) of
              Some params \<Rightarrow> Some (gated, h, params)
            | None \<Rightarrow> dispatch ls req)
      else dispatch ls req)"

definition health :: "env \<Rightarrow> server_state \<Rightarrow> response" where
  "health e s =
     json_status 200
       [(''status'', JStr ''healthy''),
        (''timestamp'', JStr (now e)),
        (''clientInitialized'', JBool (adoClient s \<noteq> None))]"

definition root :: response where
  "root =
     json_status 200
       [(''message'', JStr ''Azure DevOps Test Plans API Server''),
        (''version'', JStr ''1.0.0''),
        (''endpoints'', JObj
           [(''GET /health'', JStr ''Health check''),
            (''GET /api/testplans'', JStr ''Get all test plans''),
            (''GET /api/testplans/:id'', JStr ''Get test plan by ID''),
            (''POST /api/testplans'', JStr ''Create new test plan''),
            (''PUT /api/testplans/:id'', JStr ''Update test plan''),
            (''DELETE /api/testplans/:id'', JStr ''Delete test plan''),
            (''POST /api/testcases'', JStr ''Create new test case''),
            (''GET /api/testcases/:id'', JStr ''Get test case details by work item ID''),
            (''POST /api/testcases/batch'', JStr ''Get multiple test case details''),
            (''POST /api/testplans/:planId/suites/:suiteId/testcases'', JStr ''Add test cases to suite''),
            (''GET /api/testplans/:planId/suites/:suiteId/testcases'', JStr ''Get test cases from suite''),
            (''GET /api/builds/:buildId/testresults'', JStr ''Get test results for build''),
            (''POST /:resourceId/saveConnection'', JStr ''Save connection configuration''),
            (''GET /:resourceId'', JStr ''Get connection configuration''),
            (''GET /:resourceId/ado_plans'', JStr ''Get ADO test plans and suites''),
            (''POST /:resourceId/createIssue/:testCaseId'', JStr ''Create GitHub issue for test case'')]),
        (''documentation'', JStr ''See README.md for detailed API documentation'')]"

definition notFound :: "request \<Rightarrow> response" where
  "notFound req =
     json_status 404
       [(''error'', JStr ''Not Found''),
        (''message'', JStr (''Route '' @ originalUrl req @ '' not found'')),
        (''availableEndpoints'', JStr ''/'')]"

definition api :: "server_state \<Rightarrow> api_result \<Rightarrow> result" where
  "api s r = (fst r, s, snd r)"

text \<open>
  The handler with its path parameters. \<open>matchPath\<close> gives as many parameters as the
  pattern has, so the last case of each inner match is never taken.
\<close>

definition with1 :: "request \<Rightarrow> server_state \<Rightarrow> string list \<Rightarrow> (string \<Rightarrow> result) \<Rightarrow> result" where
  "with1 req s params f = (case params of [a] \<Rightarrow> f a | _ \<Rightarrow> (notFound req, s, []))"

definition with2 :: "request \<Rightarrow> server_state \<Rightarrow> string list \<Rightarrow> (string \<Rightarrow> string \<Rightarrow> result) \<Rightarrow> result" where
  "with2 req s params f = (case params of [a, b] \<Rightarrow> f a b | _ \<Rightarrow> (notFound req, s, []))"

definition run :: "env \<Rightarrow> server_state \<Rightarrow> request \<Rightarrow> handler \<Rightarrow> string list \<Rightarrow> result" where
  "run e s req h params =
     (case h of
        H_health \<Rightarrow> (health e s, s, [])
      | H_root \<Rightarrow> (root, s, [])
      | H_testplans_list \<Rightarrow> api s (testplans_list e req)
      | H_testplans_get \<Rightarrow> with1 req s params (\<lambda>idStr. api s (testplans_get e req idStr))
      | H_testplans_create \<Rightarrow> api s (testplans_create e req)
      | H_testplans_update \<Rightarrow> with1 req s params (\<lambda>idStr. api s (testplans_update e req idStr))
      | H_testplans_delete \<Rightarrow> with1 req s params (\<lambda>idStr. api s (testplans_delete e req idStr))
      | H_testcases_create \<Rightarrow> api s (testcases_create e req)
      | H_testcases_get \<Rightarrow> with1 req s params (\<lambda>idStr. api s (testcases_get e req idStr))
      | H_testcases_batch \<Rightarrow> api s (testcases_batch e req)
      | H_suite_add \<Rightarrow> with2 req s params (\<lambda>planId suiteId. api s (suite_add e req planId suiteId))
      | H_suite_list \<Rightarrow> with2 req s params (\<lambda>planId suiteId. api s (suite_list e req planId suiteId))
      | H_build_results \<Rightarrow> with1 req s params (\<lambda>buildId. api s (build_results e req buildId))
      | H_notFound \<Rightarrow> (notFound req, s, [])
      | H_saveConnection \<Rightarrow> with1 req s params (\<lambda>rid. saveConnection e s req rid)
      | H_getConnection \<Rightarrow> with1 req s params (\<lambda>rid. getConnection e s req rid)
      | H_adoPlans \<Rightarrow> with1 req s params (\<lambda>rid. adoPlans e s req rid)
      | H_createIssue \<Rightarrow> with2 req s params (\<lambda>rid testCaseId. createIssue e s req rid testCaseId))"

text \<open>
  \<open>ensureClientInitialized\<close>: the response it sends when \<open>adoClient\<close> is \<open>null\<close>,
  or nothing when it calls \<open>next()\<close>.
\<close>

definition ensureClientInitialized :: "server_state \<Rightarrow> response option" where
  "ensureClientInitialized s = (if adoClient s = None then Some notInitialized else None)"

text \<open>A route that has taken a request: the readiness gate when it is registered with it, then the handler.\<close>

definition runRoute :: "env \<Rightarrow> server_state \<Rightarrow> request \<Rightarrow> bool \<Rightarrow> handler \<Rightarrow> string list \<Rightarrow> result" where
  "runRoute e s req gated h params =
     (if gated
      then (case ensureClientInitialized s of
              Some res \<Rightarrow> (res, s, [])
            | None \<Rightarrow> run e s req h params)
      else run e s req h params)"

text \<open>
  One request: the first matching layer answers. The result is the response, the state
  after it and the vendor calls made.
\<close>

definition handle :: "env \<Rightarrow> server_state \<Rightarrow> request \<Rightarrow> result" where
  "handle e s req =
     (case dispatch app req of
        None \<Rightarrow> (notFound req, s, [])
      | Some (gated, h, params) \<Rightarrow> runRoute e s req gated h params)"

text \<open>A sequence of requests, each served in the state the one before left.\<close>

fun serve :: "env \<Rightarrow> server_state \<Rightarrow> request list \<Rightarrow> response list \<times> server_state" where
  "serve e s [] = ([], s)"
| "serve e s (req # reqs) =
     (case handle e s req of
        (res, s1, calls) \<Rightarrow> (case serve e s1 reqs of (ress, s2) \<Rightarrow> (res # ress, s2)))"

section \<open>Predicates the properties are stated with\<close>

subsection \<open>What parseRecommendations accepts\<close>

definition acceptedTestCase :: "json \<Rightarrow> bool" where
  "acceptedTestCase testCase =
     (truthy (getField testCase ''title'') \<and> truthy (getField testCase ''description'')
      \<and> isArray (getField testCase ''steps'') \<and> truthy (getField testCase ''expectedResult''))"

definition acceptedRecommendation :: "json \<Rightarrow> bool" where
  "acceptedRecommendation rec =
     (truthy (getField rec ''name'') \<and> truthy (getField rec ''description'')
      \<and> truthy (getField rec ''objective'')
      \<and> (case getField rec ''testCases'' of
            Some (JArr tcs) \<Rightarrow> list_all acceptedTestCase tcs
          | _ \<Rightarrow> False))"

definition accepted :: "json \<Rightarrow> bool" where
  "accepted v = (case v of JArr recs \<Rightarrow> list_all acceptedRecommendation recs | _ \<Rightarrow> False)"

text \<open>
  The shape in the words of the specification: an array in which every element has fields
  name, description, objective and an array field testCases, and every test case has title,
  description, an array field steps, and expectedResult.
\<close>

definition spec_testCase :: "json \<Rightarrow> bool" where
  "spec_testCase testCase =
     (getField testCase ''title'' \<noteq> None \<and> getField testCase ''description'' \<noteq> None
      \<and> isArray (getField testCase ''steps'') \<and> getField testCase ''expectedResult'' \<noteq> None)"

definition spec_recommendation :: "json \<Rightarrow> bool" where
  "spec_recommendation rec =
     (getField rec ''name'' \<noteq> None \<and> getField rec ''description'' \<noteq> None
      \<and> getField rec ''objective'' \<noteq> None
      \<and> (case getField rec ''testCases'' of
            Some (JArr tcs) \<Rightarrow> list_all spec_testCase tcs
          | _ \<Rightarrow> False))"

definition spec_shape :: "json \<Rightarrow> bool" where
  "spec_shape v = (case v of JArr recs \<Rightarrow> list_all spec_recommendation recs | _ \<Rightarrow> False)"

subsection \<open>Well-formed stores\<close>

text \<open>
  Every reference held by the \<open>testSuites\<close> map has been allocated, and no suite object is
  in the lists of two resources.
\<close>

definition wf_state :: "server_state \<Rightarrow> bool" where
  "wf_state s =
     ((\<forall>rid refs. testSuites s rid = Some refs \<longrightarrow> (\<forall>r \<in> set refs. r < nextRef s))
      \<and> (\<forall>rid rid' refs refs'. rid \<noteq> rid' \<longrightarrow> testSuites s rid = Some refs
            \<longrightarrow> testSuites s rid' = Some refs' \<longrightarrow> set refs \<inter> set refs' = {}))"

subsection \<open>What the issue handler does to one suite\<close>

definition markSuite :: "string \<Rightarrow> string \<Rightarrow> TestSuite \<Rightarrow> TestSuite" where
  "markSuite testCaseId issueId suite =
     (if ts_testCaseId suite = testCaseId
      then suite\<lparr>ts_testCases := map (markTestCase issueId) (ts_testCases suite)\<rparr>
      else suite)"

definition issueSuite :: "string \<Rightarrow> string \<Rightarrow> json \<Rightarrow> json \<Rightarrow> TestSuite" where
  "issueSuite testCaseId issueId title body' =
     \<lparr>ts_name = ''GitHub Issue Suite'', ts_testCaseId = testCaseId,
      ts_testCases = [\<lparr>tc_name = title, tc_steps = [body'], tc_issueId = Some issueId,
                       tc_status = Some ''Creating''\<rparr>]\<rparr>"

subsection \<open>The layers a request can reach\<close>

text \<open>The layers up to and including the first middleware that takes every request.\<close>

fun reached :: "layer list \<Rightarrow> layer list" where
  "reached [] = []"
| "reached (Use h # ls) = [Use h]"
| "reached (Route m pat gated h # ls) = Route m pat gated h # reached ls"

subsection \<open>Routes with a numeric path parameter\<close>

definition numericIdHandlers :: "handler list" where
  "numericIdHandlers =
     [H_testplans_get, H_testplans_update, H_testplans_delete, H_testcases_get,
      H_suite_add, H_suite_list, H_build_results]"

section \<open>Example inputs\<close>

definition example_env :: env where
  "example_env =
     \<lparr>getAllTestPlans = (\<lambda>filterActivePlans includePlanDetails.
          Inr [\<lparr>plan_id = Some 7, plan_name = Some ''Login'', plan_rest = []\<rparr>]),
      getTestPlan = (\<lambda>n. Inr (JObj [(''id'', JNum (of_int n))])),
      createTestPlan = (\<lambda>args. Inr JNull),
      updateTestPlan = (\<lambda>n updates. Inr updates),
      deleteTestPlan = (\<lambda>n. Inr ()),
      createTestCase = (\<lambda>args. Inr JNull),
      getTestCaseDetails = (\<lambda>n. Inr JNull),
      getMultipleTestCaseDetails = (\<lambda>ids. Inr (JArr ids)),
      addTestCasesToSuite = (\<lambda>planId suiteId ids. Inr ids),
      getTestCaseList = (\<lambda>planId suiteId. Inr []),
      getTestResultsFromBuildId = (\<lambda>buildId. Inr JNull),
      now = ''2025-08-07T07:28:14.574Z'',
      random36 = ''0.4fzyo82mvyr''\<rparr>"

definition example_ready :: server_state where
  "example_ready = initial_state\<lparr>adoClient := Some Ready\<rparr>"

definition example_fields :: json where
  "example_fields =
     JObj [(''github_url'', JStr ''g''), (''prd'', JStr ''p''),
           (''ado_url'', JStr ''a''), (''website_url'', JStr ''w'')]"

definition example_save :: request where
  "example_save =
     \<lparr>req_method = POST, originalUrl = ''/r1/saveConnection'', path = [''r1'', ''saveConnection''],
      query = [], body = example_fields\<rparr>"

definition example_get :: request where
  "example_get =
     \<lparr>req_method = GET, originalUrl = ''/r1'', path = [''r1''], query = [], body = JObj []\<rparr>"

definition example_issue :: request where
  "example_issue =
     \<lparr>req_method = POST, originalUrl = ''/r1/createIssue/42'', path = [''r1'', ''createIssue'', ''42''],
      query = [], body = JObj [(''title'', JStr ''t''), (''body'', JStr ''b'')]\<rparr>"


definition example_recommendations :: request where
  "example_recommendations =
     \<lparr>req_method = POST, originalUrl = ''/api/testplans/recommendations'',
      path = [''api'', ''testplans'', ''recommendations''], query = [], body = JObj []\<rparr>"

definition example_plan :: "string \<Rightarrow> request" where
  "example_plan idStr =
     \<lparr>req_method = GET, originalUrl = ''/api/testplans/'' @ idStr, path = [''api'', ''testplans'', idStr],
      query = [], body = JObj []\<rparr>"

definition example_list :: request where
  "example_list =
     \<lparr>req_method = GET, originalUrl = ''/api/testplans?filterActivePlans=False'',
      path = [''api'', ''testplans''],
      query = [(''filterActivePlans'', QStr ''False'')], body = JObj []\<rparr>"

definition example_batch :: "json \<Rightarrow> request" where
  "example_batch b =
     \<lparr>req_method = POST, originalUrl = ''/api/testcases/batch'', path = [''api'', ''testcases'', ''batch''],
      query = [], body = b\<rparr>"

text \<open>A store with two saved connections and one suite, held by the second resource.\<close>

definition example_connection :: "string \<Rightarrow> Connection" where
  "example_connection rid =
     \<lparr>resourceId = rid, connectionId = ''4fzyo82mvy'', github_url = JStr ''g'', prd = JStr ''p'',
      ado_url = JStr ''a'', website_url = JStr ''w''\<rparr>"

definition example_suite :: TestSuite where
  "example_suite =
     \<lparr>ts_name = ''Login'', ts_testCaseId = ''7'',
      ts_testCases = [\<lparr>tc_name = JStr ''Sample test case for Login'', tc_steps = [],
                       tc_issueId = None, tc_status = None\<rparr>]\<rparr>"

definition example_store :: server_state where
  "example_store =
     \<lparr>adoClient = Some Ready,
      connections = [''r1'' \<mapsto> example_connection ''r1'', ''r2'' \<mapsto> example_connection ''r2''],
      testSuites = [''r2'' \<mapsto> [0]],
      objects = [0 \<mapsto> example_suite],
      nextRef = 1\<rparr>"

text \<open>Model output, and a parser that knows these documents only.\<close>

definition example_testCase :: "string \<Rightarrow> json" where
  "example_testCase title =
     JObj [(''title'', JStr title), (''description'', JStr ''d''),
           (''steps'', JArr [JStr ''s1'']), (''expectedResult'', JStr ''r'')]"

definition example_rec :: "string \<Rightarrow> json list \<Rightarrow> json" where
  "example_rec name tcs =
     JObj [(''name'', JStr name), (''description'', JStr ''d''), (''objective'', JStr ''o''),
           (''testCases'', JArr tcs)]"

definition example_parse :: "string \<Rightarrow> js_error + json" where
  "example_parse text =
     (if text = ''[good]'' then Inr (JArr [example_rec ''n'' [example_testCase ''t'']])
      else if text = ''[noname]'' then Inr (JArr [example_rec [] []])
      else if text = ''[notitle]'' then Inr (JArr [example_rec ''n'' [example_testCase []]])
      else Inl (Error ''Unexpected token''))"

definition example_fenced :: string where
  "example_fenced = ''```json'' @ [CHR 0x0A] @ ''[good]'' @ [CHR 0x0A] @ ''```''"

section \<open>Properties of parseRecommendations\<close>

lemma checkTestCase_ok: "(checkTestCase i j tc = Inr ()) = acceptedTestCase tc"
  by (cases tc) (auto simp: checkTestCase_def acceptedTestCase_def)

lemma checkTestCases_ok: "(checkTestCases i j tcs = Inr ()) = list_all acceptedTestCase tcs"
proof (induction tcs arbitrary: j)
  case Nil
  show ?case by simp
next
  case (Cons tc tcs)
  show ?case
    using checkTestCase_ok [of i j tc] Cons.IH [of "Suc j"]
    by (cases "checkTestCase i j tc") auto
qed

lemma checkRecommendation_ok: "(checkRecommendation i rec = Inr ()) = acceptedRecommendation rec"
proof (cases "getField rec ''testCases''")
  case None
  then show ?thesis
    by (simp add: checkRecommendation_def acceptedRecommendation_def)
next
  case (Some t)
  show ?thesis
  proof (cases t)
    case (JArr tcs)
    have "rec \<noteq> JNull" using Some by auto
    then show ?thesis
      using Some JArr checkTestCases_ok [of i 0 tcs]
      by (auto simp: checkRecommendation_def acceptedRecommendation_def)
  qed (use Some in \<open>simp_all add: checkRecommendation_def acceptedRecommendation_def\<close>)
qed

lemma checkRecommendations_ok:
  "(checkRecommendations i recs = Inr ()) = list_all acceptedRecommendation recs"
proof (induction recs arbitrary: i)
  case Nil
  show ?case by simp
next
  case (Cons r recs)
  show ?case
    using checkRecommendation_ok [of i r] Cons.IH [of "Suc i"]
    by (cases "checkRecommendation i r") auto
qed

lemma parseRecommendations_Inr:
  "(parseRecommendations JSON_parse content = Inr v)
   = (JSON_parse (cleanContent content) = Inr v \<and> accepted v)"
proof (cases "JSON_parse (cleanContent content)")
  case (Inl e)
  then show ?thesis by (simp add: parseRecommendations_def)
next
  case (Inr parsed)
  show ?thesis
  proof (cases parsed)
    case (JArr recs)
    with Inr show ?thesis
      using checkRecommendations_ok [of 0 recs]
      by (cases "checkRecommendations 0 recs") (auto simp: parseRecommendations_def accepted_def)
  qed (use Inr in \<open>auto simp: parseRecommendations_def accepted_def\<close>)
qed

lemma parseRecommendations_Inl:
  "parseRecommendations JSON_parse content = Inl err \<Longrightarrow>
   \<exists>msg. err = Error (''Failed to parse recommendations: '' @ msg)"
  by (auto simp: parseRecommendations_def split: sum.splits)

lemma cleanContent_example_fenced: "cleanContent example_fenced = ''[good]''"
  by (simp add: example_fenced_def cleanContent_def trim_def startsWith_def isWhiteSpace_def)

lemma cleanContent_plain:
  "cleanContent ''[noname]'' = ''[noname]''" "cleanContent ''[notitle]'' = ''[notitle]''"
  by (simp_all add: cleanContent_def trim_def startsWith_def isWhiteSpace_def)

text \<open>
  Claim C5, as the code has it. \<open>parseRecommendations\<close> removes every code-fence marker of
  the model output (with the white space after it), trims the text and parses it as JSON. It
  returns the parsed value exactly when that value is an array in which every element has
  truthy \<open>name\<close>, \<open>description\<close> and \<open>objective\<close> and an array \<open>testCases\<close>, and
  every test case has truthy \<open>title\<close>, \<open>description\<close> and \<open>expectedResult\<close> and an
  array \<open>steps\<close>. On every other input it throws an error whose message begins with
  "Failed to parse recommendations".
\<close>

theorem parseRecommendations_accepts_truthy_shape:
  "((parseRecommendations JSON_parse content = Inr v)
     = (JSON_parse (cleanContent content) = Inr v \<and> accepted v))
   \<and> (\<forall>err. parseRecommendations JSON_parse content = Inl err
         \<longrightarrow> startsWith (message err) ''Failed to parse recommendations'')
   \<and> ((\<exists>err. parseRecommendations JSON_parse content = Inl err)
         = (\<not> (\<exists>w. JSON_parse (cleanContent content) = Inr w \<and> accepted w)))"
proof (intro conjI allI impI)
  show "(parseRecommendations JSON_parse content = Inr v)
        = (JSON_parse (cleanContent content) = Inr v \<and> accepted v)"
    by (rule parseRecommendations_Inr)
next
  fix err
  assume "parseRecommendations JSON_parse content = Inl err"
  then obtain msg where "err = Error (''Failed to parse recommendations: '' @ msg)"
    using parseRecommendations_Inl by blast
  then show "startsWith (message err) ''Failed to parse recommendations''"
    by (simp add: startsWith_def Error_def)
next
  show "(\<exists>err. parseRecommendations JSON_parse content = Inl err)
        = (\<not> (\<exists>w. JSON_parse (cleanContent content) = Inr w \<and> accepted w))"
    using parseRecommendations_Inr [of JSON_parse content]
    by (cases "parseRecommendations JSON_parse content") auto
qed

theorem parseRecommendations_accepts_truthy_shape_witness:
  "parseRecommendations example_parse example_fenced
     = Inr (JArr [example_rec ''n'' [example_testCase ''t'']])
   \<and> startsWith (message (Error ''Failed to parse recommendations: Unexpected token''))
        ''Failed to parse recommendations''
   \<and> parseRecommendations example_parse ''junk''
     = Inl (Error ''Failed to parse recommendations: Unexpected token'')"
proof -
  have ok: "example_parse (cleanContent example_fenced) = Inr (JArr [example_rec ''n'' [example_testCase ''t'']])"
    by (simp add: cleanContent_example_fenced example_parse_def)
  have acc: "accepted (JArr [example_rec ''n'' [example_testCase ''t'']])"
    by (simp add: accepted_def acceptedRecommendation_def acceptedTestCase_def
                  example_rec_def example_testCase_def)
  have junk: "parseRecommendations example_parse ''junk''
                = Inl (Error ''Failed to parse recommendations: Unexpected token'')"
    by (simp add: parseRecommendations_def example_parse_def cleanContent_def trim_def
                  startsWith_def isWhiteSpace_def Error_def)
  show ?thesis
    using parseRecommendations_accepts_truthy_shape
            [of example_parse example_fenced "JArr [example_rec ''n'' [example_testCase ''t'']]"]
          parseRecommendations_accepts_truthy_shape
            [of example_parse "''junk''" "JNull"]
          ok acc junk
    by simp
qed

text \<open>
  The claim as the specification words it fails: a recommendation whose \<open>name\<close> field is
  present and is the empty string has the stated shape, and is rejected.
\<close>

theorem parseRecommendations_shape_counterexample:
  "example_parse (cleanContent ''[noname]'') = Inr (JArr [example_rec [] []])
   \<and> spec_shape (JArr [example_rec [] []])
   \<and> parseRecommendations example_parse ''[noname]''
     = Inl (Error ''Failed to parse recommendations: Invalid recommendation structure at index 0'')"
  by (simp add: cleanContent_plain example_parse_def spec_shape_def spec_recommendation_def
                example_rec_def parseRecommendations_def checkRecommendation_def Error_def
                show_nat.simps digit_char_def)

text \<open>
  Claim C10. When the parsed array holds a recommendation whose \<open>name\<close>, \<open>description\<close>
  or \<open>objective\<close> is the empty string, or one with a test case whose \<open>title\<close>,
  \<open>description\<close> or \<open>expectedResult\<close> is the empty string, \<open>parseRecommendations\<close>
  throws an error whose message starts with "Failed to parse recommendations".
\<close>

theorem parseRecommendations_rejects_empty_strings:
  assumes "JSON_parse (cleanContent content) = Inr (JArr recs)"
    and "rec \<in> set recs"
    and "getField rec ''name'' = Some (JStr [])
         \<or> getField rec ''description'' = Some (JStr [])
         \<or> getField rec ''objective'' = Some (JStr [])
         \<or> (\<exists>tcs tc. getField rec ''testCases'' = Some (JArr tcs) \<and> tc \<in> set tcs
               \<and> (getField tc ''title'' = Some (JStr [])
                    \<or> getField tc ''description'' = Some (JStr [])
                    \<or> getField tc ''expectedResult'' = Some (JStr [])))"
  shows "\<exists>msg. parseRecommendations JSON_parse content
                 = Inl (Error (''Failed to parse recommendations: '' @ msg))"
proof -
  have "\<not> acceptedRecommendation rec"
    using assms(3)
    by (fastforce simp: acceptedRecommendation_def acceptedTestCase_def list_all_iff)
  with assms(2) have "\<not> accepted (JArr recs)"
    by (auto simp: accepted_def list_all_iff)
  with assms(1) have "\<forall>v. parseRecommendations JSON_parse content \<noteq> Inr v"
    by (auto simp: parseRecommendations_Inr)
  then obtain err where "parseRecommendations JSON_parse content = Inl err"
    by (cases "parseRecommendations JSON_parse content") auto
  then show ?thesis
    using parseRecommendations_Inl by blast
qed

theorem parseRecommendations_rejects_empty_strings_witness:
  "example_parse (cleanContent ''[notitle]'') = Inr (JArr [example_rec ''n'' [example_testCase []]])
   \<and> getField (example_testCase []) ''title'' = Some (JStr [])
   \<and> (\<exists>msg. parseRecommendations example_parse ''[notitle]''
               = Inl (Error (''Failed to parse recommendations: '' @ msg)))"
proof -
  have p: "example_parse (cleanContent ''[notitle]'') = Inr (JArr [example_rec ''n'' [example_testCase []]])"
    by (simp add: cleanContent_plain example_parse_def)
  have m: "example_rec ''n'' [example_testCase []] \<in> set [example_rec ''n'' [example_testCase []]]"
    by simp
  have t: "getField (example_testCase []) ''title'' = Some (JStr [])"
    by (simp add: example_testCase_def)
  have f: "getField (example_rec ''n'' [example_testCase []]) ''testCases''
             = Some (JArr [example_testCase []])"
    by (simp add: example_rec_def)
  have d: "getField (example_rec ''n'' [example_testCase []]) ''name'' = Some (JStr [])
         \<or> getField (example_rec ''n'' [example_testCase []]) ''description'' = Some (JStr [])
         \<or> getField (example_rec ''n'' [example_testCase []]) ''objective'' = Some (JStr [])
         \<or> (\<exists>tcs tc. getField (example_rec ''n'' [example_testCase []]) ''testCases'' = Some (JArr tcs)
               \<and> tc \<in> set tcs
               \<and> (getField tc ''title'' = Some (JStr [])
                    \<or> getField tc ''description'' = Some (JStr [])
                    \<or> getField tc ''expectedResult'' = Some (JStr [])))"
    using t f by auto
  have "\<exists>msg. parseRecommendations example_parse ''[notitle]''
               = Inl (Error (''Failed to parse recommendations: '' @ msg))"
    by (rule parseRecommendations_rejects_empty_strings
              [where JSON_parse = example_parse and content = "''[notitle]''", OF p m d])
  with p t show ?thesis by blast
qed

section \<open>Properties of the application\<close>

subsection \<open>Which layer answers\<close>

lemma dispatch_reached:
  "dispatch ls req = Some (gated, h, params) \<Longrightarrow>
   (Use h \<in> set (reached ls) \<and> \<not> gated \<and> params = [])
   \<or> (\<exists>pat. Route (req_method req) pat gated h \<in> set (reached ls)
              \<and> matchPath pat (path req) = Some params)"
proof (induction ls req rule: dispatch.induct)
  case (1 req)
  then show ?case by simp
next
  case (2 h' ls req)
  then show ?case by auto
next
  case (3 m pat g h' ls req)
  show ?case
  proof (cases "req_method req = m \<and> matchPath pat (path req) \<noteq> None")
    case True
    then show ?thesis using "3.prems" by auto
  next
    case False
    then have "dispatch ls req = Some (gated, h, params)"
      using "3.prems" by (auto split: if_splits option.splits)
    then show ?thesis
      using False "3.IH" by (auto split: if_splits option.splits)
  qed
qed

lemma reached_app:
  "reached app =
     [Route GET [L ''health''] False H_health,
      Route GET [] False H_root,
      Route GET [L ''api'', L ''testplans''] True H_testplans_list,
      Route GET [L ''api'', L ''testplans'', P] True H_testplans_get,
      Route POST [L ''api'', L ''testplans''] True H_testplans_create,
      Route PUT [L ''api'', L ''testplans'', P] True H_testplans_update,
      Route DELETE [L ''api'', L ''testplans'', P] True H_testplans_delete,
      Route POST [L ''api'', L ''testcases''] True H_testcases_create,
      Route GET [L ''api'', L ''testcases'', P] True H_testcases_get,
      Route POST [L ''api'', L ''testcases'', L ''batch''] True H_testcases_batch,
      Route POST [L ''api'', L ''testplans'', P, L ''suites'', P, L ''testcases''] True H_suite_add,
      Route GET [L ''api'', L ''testplans'', P, L ''suites'', P, L ''testcases''] True H_suite_list,
      Route GET [L ''api'', L ''builds'', P, L ''testresults''] True H_build_results,
      Use H_notFound]"
  by (simp add: app_def)

text \<open>
  The four resource routes are registered after the middleware that answers 404 to every
  request, so no request is ever dispatched to them.
\<close>

lemma resource_handlers_unreachable:
  assumes "dispatch app req = Some (gated, h, params)"
  shows "h \<noteq> H_saveConnection \<and> h \<noteq> H_getConnection \<and> h \<noteq> H_adoPlans \<and> h \<noteq> H_createIssue"
  using dispatch_reached [OF assms] by (auto simp: reached_app)


lemma matchPath_Nil: "matchPath [] xs = Some ps \<Longrightarrow> xs = [] \<and> ps = []"
  by (cases xs) auto

lemma matchPath_L:
  "matchPath (L l # pat) xs = Some ps \<Longrightarrow>
   \<exists>x xs'. xs = x # xs' \<and> map toLowerCase x = l \<and> matchPath pat xs' = Some ps"
  by (cases xs) (auto split: if_splits)

lemma matchPath_P:
  "matchPath (P # pat) xs = Some ps \<Longrightarrow>
   \<exists>x xs' ps'. xs = x # xs' \<and> x \<noteq> [] \<and> ps = x # ps' \<and> matchPath pat xs' = Some ps'"
  by (cases xs) (auto split: if_splits)

text \<open>The parameters a numeric-id route hands to its handler.\<close>

lemma numeric_params:
  assumes "dispatch app req = Some (gated, h, params)" and "h \<in> set numericIdHandlers"
  shows "gated \<and> ((h \<in> {H_testplans_get, H_testplans_update, H_testplans_delete,
                       H_testcases_get, H_build_results} \<and> (\<exists>a. params = [a]))
               \<or> (h \<in> {H_suite_add, H_suite_list} \<and> (\<exists>a b. params = [a, b])))"
  using dispatch_reached [OF assms(1)] assms(2)
  by (auto simp: reached_app numericIdHandlers_def
           dest!: matchPath_L matchPath_P matchPath_Nil)

subsection \<open>Concrete requests\<close>

lemma handle_unfold:
  "handle e s req =
     (case dispatch app req of
        None \<Rightarrow> (notFound req, s, [])
      | Some (gated, h, params) \<Rightarrow>
          if gated \<and> adoClient s = None then (notInitialized, s, [])
          else run e s req h params)"
  by (auto simp: handle_def runRoute_def ensureClientInitialized_def split: option.splits)

lemmas route_simps = app_def toLowerCase_def

lemma saveConnection_route:
  "handle e s \<lparr>req_method = POST, originalUrl = u, path = [rid, ''saveConnection''], query = q, body = b\<rparr>
   = (notFound \<lparr>req_method = POST, originalUrl = u, path = [rid, ''saveConnection''], query = q, body = b\<rparr>, s, [])"
  by (simp add: handle_unfold run_def route_simps)


lemma adoPlans_route:
  "handle e s \<lparr>req_method = GET, originalUrl = u, path = [rid, ''ado_plans''], query = q, body = b\<rparr>
   = (notFound \<lparr>req_method = GET, originalUrl = u, path = [rid, ''ado_plans''], query = q, body = b\<rparr>, s, [])"
  by (simp add: handle_unfold run_def route_simps)

lemma getConnection_route_r1: "handle e s example_get = (notFound example_get, s, [])"
  by (simp add: handle_unfold run_def route_simps example_get_def)

text \<open>
  Claim C1, at the request sequence POST /r1/saveConnection (all four fields given), GET /r1:
  both requests are answered by the 404 middleware and nothing is saved.
\<close>

theorem saveConnection_then_get_not_found:
  "serve e example_ready [example_save, example_get]
     = ([notFound example_save, notFound example_get], example_ready)
   \<and> status (notFound example_save) = 404 \<and> status (notFound example_get) = 404
   \<and> connections example_ready ''r1'' = None"
  using saveConnection_route [of e example_ready "''/r1/saveConnection''" "''r1''" "[]" example_fields]
        getConnection_route_r1 [of e example_ready]
  by (simp add: example_save_def notFound_def json_status_def example_ready_def initial_state_def)

text \<open>
  Claim C2, at a request with no \<open>prd\<close> field (and at any other body): no route is
  registered for POST /api/testplans/recommendations, the 404 middleware answers.
\<close>

theorem recommendations_not_found:
  "handle e s \<lparr>req_method = POST, originalUrl = u, path = [''api'', ''testplans'', ''recommendations''],
               query = q, body = b\<rparr>
   = (notFound \<lparr>req_method = POST, originalUrl = u, path = [''api'', ''testplans'', ''recommendations''],
                query = q, body = b\<rparr>, s, [])
   \<and> status (notFound \<lparr>req_method = POST, originalUrl = u,
                        path = [''api'', ''testplans'', ''recommendations''], query = q, body = b\<rparr>) = 404"
  by (simp add: handle_unfold run_def route_simps notFound_def json_status_def)


text \<open>The gate tests that the client object exists, not that its initialization has finished.\<close>

lemma gate_passes_while_initializing:
  "snd (snd (handle example_env (initial_state\<lparr>adoClient := Some Initializing\<rparr>) example_list))
   = [GetAllTestPlans True False]"
  by (simp add: handle_unfold run_def route_simps example_list_def api_def testplans_list_def
                example_env_def)



subsection \<open>Numeric path parameters\<close>

text \<open>
  Claim C6, as the code has it. On every route with a numeric path parameter, a request in
  which \<open>parseInt\<close> of such a parameter is \<open>NaN\<close> is answered without any vendor call
  and without a change of state: with 400, or with the 500 of the readiness gate when the
  client is not there. \<open>parseInt\<close> is \<open>NaN\<close> only when the segment, after leading
  white space, a sign and a \<open>0x\<close> prefix, does not start with a digit; a segment that merely
  starts with digits is not rejected.
\<close>

theorem numeric_id_NaN_rejected:
  assumes "dispatch app req = Some (gated, h, params)"
    and "h \<in> set numericIdHandlers"
    and "p \<in> set params"
    and "parseInt p = None"
  shows "status (fst (handle e s req)) = (if adoClient s = None then 500 else 400)
         \<and> snd (handle e s req) = (s, [])"
proof -
  from numeric_params [OF assms(1,2)]
  have g: gated
    and shape: "(h \<in> {H_testplans_get, H_testplans_update, H_testplans_delete,
                       H_testcases_get, H_build_results} \<and> (\<exists>a. params = [a]))
               \<or> (h \<in> {H_suite_add, H_suite_list} \<and> (\<exists>a b. params = [a, b]))"
    by auto
  show ?thesis
  proof (cases "adoClient s = None")
    case True
    then show ?thesis
      using assms(1) g by (simp add: handle_unfold notInitialized_def json_status_def)
  next
    case False
    have h: "handle e s req = run e s req h params"
      using assms(1) False by (auto simp: handle_unfold)
    from shape show ?thesis
    proof
      assume one: "h \<in> {H_testplans_get, H_testplans_update, H_testplans_delete,
                         H_testcases_get, H_build_results} \<and> (\<exists>a. params = [a])"
      then have "params = [p]" using assms(3) by auto
      with one assms(4) False show ?thesis
        unfolding h
        by (auto simp: run_def with1_def api_def testplans_get_def testplans_update_def
                       testplans_delete_def testcases_get_def build_results_def
                       invalidTestPlanId_def json_status_def)
    next
      assume two: "h \<in> {H_suite_add, H_suite_list} \<and> (\<exists>a b. params = [a, b])"
      then obtain a b where ps: "params = [a, b]" by auto
      with assms(3,4) have "parseInt a = None \<or> parseInt b = None" by auto
      with two ps False show ?thesis
        unfolding h
        by (auto simp: run_def with2_def api_def suite_add_def suite_list_def
                       invalidIds_def json_status_def split: option.splits)
    qed
  qed
qed

lemma parseInt_abc: "parseInt ''abc'' = None"
  by (simp add: parseInt_def startsWith_def isWhiteSpace_def isDigit_def digit_val_def)

lemma parseInt_12abc: "parseInt ''12abc'' = Some 12"
  by (simp add: parseInt_def startsWith_def isWhiteSpace_def isDigit_def digit_val_def
                digits_value_def)

lemma parseInt_3_7: "parseInt ''3.7'' = Some 3"
  by (simp add: parseInt_def startsWith_def isWhiteSpace_def isDigit_def digit_val_def
                digits_value_def)

lemma dispatch_example_plan:
  "idStr \<noteq> [] \<Longrightarrow> dispatch app (example_plan idStr) = Some (True, H_testplans_get, [idStr])"
  by (simp add: example_plan_def route_simps)

theorem numeric_id_NaN_rejected_witness:
  "dispatch app (example_plan ''abc'') = Some (True, H_testplans_get, [''abc''])
   \<and> H_testplans_get \<in> set numericIdHandlers
   \<and> parseInt ''abc'' = None
   \<and> status (fst (handle example_env example_ready (example_plan ''abc''))) = 400
   \<and> snd (handle example_env example_ready (example_plan ''abc'')) = (example_ready, [])"
proof -
  have d: "dispatch app (example_plan ''abc'') = Some (True, H_testplans_get, [''abc''])"
    by (simp add: dispatch_example_plan)
  have n: "H_testplans_get \<in> set numericIdHandlers"
    by (simp add: numericIdHandlers_def)
  have m: "''abc'' \<in> set [''abc'']" by simp
  have r: "adoClient example_ready \<noteq> None"
    by (simp add: example_ready_def)
  show ?thesis
    using numeric_id_NaN_rejected [OF d n m parseInt_abc, of example_env example_ready] d n r
          parseInt_abc
    by simp
qed

text \<open>
  The claim as the specification words it fails: GET /api/testplans/12abc and
  GET /api/testplans/3.7 are not answered with 400; the vendor is asked for plans 12 and 3.
\<close>

theorem numeric_id_prefix_counterexample:
  "handle example_env example_ready (example_plan ''12abc'')
     = (json_status 200 [(''success'', JBool True), (''data'', JObj [(''id'', JNum 12)])],
        example_ready, [GetTestPlan 12])
   \<and> handle example_env example_ready (example_plan ''3.7'')
     = (json_status 200 [(''success'', JBool True), (''data'', JObj [(''id'', JNum 3)])],
        example_ready, [GetTestPlan 3])"
  by (simp add: handle_unfold dispatch_example_plan run_def with1_def api_def testplans_get_def
                parseInt_12abc parseInt_3_7 example_env_def example_ready_def)

subsection \<open>Batch fetch of test cases\<close>

lemma filter_all_length: "(length (filter Q xs) = length xs) = (\<forall>x \<in> set xs. Q x)"
proof (induction xs)
  case Nil
  show ?case by simp
next
  case (Cons x xs)
  show ?case
  proof (cases "Q x")
    case True
    with Cons.IH show ?thesis by simp
  next
    case False
    have "length (filter Q xs) \<le> length xs" by (rule length_filter_le)
    then have "length (filter Q xs) \<noteq> Suc (length xs)" by linarith
    with False show ?thesis by simp
  qed
qed

lemma batch_route:
  "adoClient s \<noteq> None \<Longrightarrow>
   handle e s \<lparr>req_method = POST, originalUrl = u, path = [''api'', ''testcases'', ''batch''],
               query = q, body = b\<rparr>
   = api s (testcases_batch e \<lparr>req_method = POST, originalUrl = u,
                                path = [''api'', ''testcases'', ''batch''], query = q, body = b\<rparr>)"
  by (auto simp: handle_unfold run_def route_simps)

text \<open>
  Claim C4. With the readiness gate open, a POST /api/testcases/batch whose \<open>ids\<close> is not
  an array or is empty gets 400 "ids array is required and cannot be empty"; otherwise one
  with more than 100 entries gets 400 "Maximum 100 test case IDs allowed per request",
  whatever the entries are; otherwise one with an entry that is not a positive integer gets
  400 "All IDs must be positive integers". In all three cases no vendor call is made, and
  when no rule is violated the one vendor call is made with the ids as sent.
\<close>

theorem batch_validation_order:
  assumes "adoClient s \<noteq> None"
    and "req = \<lparr>req_method = POST, originalUrl = u, path = [''api'', ''testcases'', ''batch''],
                query = q, body = b\<rparr>"
  shows "(\<not> isArray (getField b ''ids'') \<or> getField b ''ids'' = Some (JArr [])
            \<longrightarrow> handle e s req
                = (json_status 400 [(''error'', JStr ''ids array is required and cannot be empty'')], s, []))
       \<and> (\<forall>ids. getField b ''ids'' = Some (JArr ids) \<and> length ids > 100
            \<longrightarrow> handle e s req
                = (json_status 400 [(''error'', JStr ''Maximum 100 test case IDs allowed per request'')], s, []))
       \<and> (\<forall>ids. getField b ''ids'' = Some (JArr ids) \<and> ids \<noteq> [] \<and> length ids \<le> 100
                 \<and> (\<exists>x \<in> set ids. \<not> isPositiveInteger x)
            \<longrightarrow> handle e s req
                = (json_status 400 [(''error'', JStr ''All IDs must be positive integers'')], s, []))
       \<and> (\<forall>ids. getField b ''ids'' = Some (JArr ids) \<and> ids \<noteq> [] \<and> length ids \<le> 100
                 \<and> (\<forall>x \<in> set ids. isPositiveInteger x)
            \<longrightarrow> snd (handle e s req) = (s, [GetMultipleTestCaseDetails ids]))"
proof -
  have h: "handle e s req = api s (testcases_batch e req)"
    unfolding assms(2) by (rule batch_route [OF assms(1)])
  have b: "body req = b" by (simp add: assms(2))
  have c1: "\<not> isArray (getField b ''ids'') \<or> getField b ''ids'' = Some (JArr [])
            \<longrightarrow> handle e s req
                = (json_status 400 [(''error'', JStr ''ids array is required and cannot be empty'')], s, [])"
  proof (cases "getField b ''ids''")
    case None
    then show ?thesis by (simp add: h b api_def testcases_batch_def)
  next
    case (Some v)
    then show ?thesis by (cases v) (simp_all add: h b api_def testcases_batch_def)
  qed
  have c2: "\<forall>ids. getField b ''ids'' = Some (JArr ids) \<and> length ids > 100
            \<longrightarrow> handle e s req
                = (json_status 400 [(''error'', JStr ''Maximum 100 test case IDs allowed per request'')], s, [])"
    by (auto simp: h b api_def testcases_batch_def)
  have c3: "\<forall>ids. getField b ''ids'' = Some (JArr ids) \<and> ids \<noteq> [] \<and> length ids \<le> 100
                 \<and> (\<exists>x \<in> set ids. \<not> isPositiveInteger x)
            \<longrightarrow> handle e s req
                = (json_status 400 [(''error'', JStr ''All IDs must be positive integers'')], s, [])"
    by (auto simp: h b api_def testcases_batch_def filter_all_length)
  have c4: "\<forall>ids. getField b ''ids'' = Some (JArr ids) \<and> ids \<noteq> [] \<and> length ids \<le> 100
                 \<and> (\<forall>x \<in> set ids. isPositiveInteger x)
            \<longrightarrow> snd (handle e s req) = (s, [GetMultipleTestCaseDetails ids])"
  proof (intro allI impI)
    fix ids
    assume a: "getField b ''ids'' = Some (JArr ids) \<and> ids \<noteq> [] \<and> length ids \<le> 100
                 \<and> (\<forall>x \<in> set ids. isPositiveInteger x)"
    then have f: "filter isPositiveInteger ids = ids" by simp
    show "snd (handle e s req) = (s, [GetMultipleTestCaseDetails ids])"
      using a by (cases "getMultipleTestCaseDetails e ids")
                 (simp_all add: h b api_def testcases_batch_def f)
  qed
  show ?thesis using c1 c2 c3 c4 by blast
qed

theorem batch_validation_order_witness:
  "adoClient example_ready \<noteq> None
   \<and> handle example_env example_ready (example_batch (JObj [(''ids'', JArr [])]))
     = (json_status 400 [(''error'', JStr ''ids array is required and cannot be empty'')],
        example_ready, [])
   \<and> handle example_env example_ready (example_batch (JObj [(''ids'', JArr (replicate 101 (JNum (- 2))))]))
     = (json_status 400 [(''error'', JStr ''Maximum 100 test case IDs allowed per request'')],
        example_ready, [])
   \<and> handle example_env example_ready (example_batch (JObj [(''ids'', JArr [JNum 1, JNum (- 2)])]))
     = (json_status 400 [(''error'', JStr ''All IDs must be positive integers'')], example_ready, [])
   \<and> snd (handle example_env example_ready (example_batch (JObj [(''ids'', JArr [JNum 1, JNum 2, JNum 3])])))
     = (example_ready, [GetMultipleTestCaseDetails [JNum 1, JNum 2, JNum 3]])"
proof -
  have r: "adoClient example_ready \<noteq> None"
    by (simp add: example_ready_def)
  note t = batch_validation_order [OF r example_batch_def, of _ example_env]
  show ?thesis
    using r t [of "JObj [(''ids'', JArr [])]"]
          t [of "JObj [(''ids'', JArr (replicate 101 (JNum (- 2))))]"]
          t [of "JObj [(''ids'', JArr [JNum 1, JNum (- 2)])]"]
          t [of "JObj [(''ids'', JArr [JNum 1, JNum 2, JNum 3])]"]
    by simp
qed

subsection \<open>Listing test plans\<close>

text \<open>
  Claim C8. With the readiness gate open, GET /api/testplans calls the vendor with
  \<open>filterActivePlans\<close> false exactly when the query parameter is the string "false" (so it
  is true when the parameter is absent or is any other string) and with
  \<open>includePlanDetails\<close> true exactly when the query parameter is the string "true"; when
  the vendor answers, the response is 200 and its \<open>filters\<close> field holds both flags.
\<close>

theorem testplans_list_flags:
  assumes "adoClient s \<noteq> None"
    and "req = \<lparr>req_method = GET, originalUrl = u, path = [''api'', ''testplans''], query = q, body = b\<rparr>"
    and "f = (map_of q ''filterActivePlans'' \<noteq> Some (QStr ''false''))"
    and "i = (map_of q ''includePlanDetails'' = Some (QStr ''true''))"
  shows "snd (handle e s req) = (s, [GetAllTestPlans f i])
       \<and> (map_of q ''filterActivePlans'' = None \<longrightarrow> f)
       \<and> (\<forall>str. map_of q ''filterActivePlans'' = Some (QStr str) \<longrightarrow> f = (str \<noteq> ''false''))
       \<and> (map_of q ''includePlanDetails'' = None \<longrightarrow> \<not> i)
       \<and> (\<forall>str. map_of q ''includePlanDetails'' = Some (QStr str) \<longrightarrow> i = (str = ''true''))
       \<and> (\<forall>testPlans. getAllTestPlans e f i = Inr testPlans
            \<longrightarrow> status (fst (handle e s req)) = 200
              \<and> getField (payload (fst (handle e s req))) ''filters''
                = Some (JObj [(''filterActivePlans'', JBool f), (''includePlanDetails'', JBool i)]))"
proof -
  have h: "handle e s req = api s (testplans_list e req)"
    using assms(1) unfolding assms(2) by (auto simp: handle_unfold run_def route_simps)
  have q: "query req = q" by (simp add: assms(2))
  have calls: "snd (handle e s req) = (s, [GetAllTestPlans f i])"
    by (cases "getAllTestPlans e f i")
       (simp_all add: h q api_def testplans_list_def Let_def assms(3,4) [symmetric])
  have echo: "\<forall>testPlans. getAllTestPlans e f i = Inr testPlans
            \<longrightarrow> status (fst (handle e s req)) = 200
              \<and> getField (payload (fst (handle e s req))) ''filters''
                = Some (JObj [(''filterActivePlans'', JBool f), (''includePlanDetails'', JBool i)])"
    by (simp add: h q api_def testplans_list_def Let_def assms(3,4) [symmetric] json_status_def)
  show ?thesis
    using calls echo by (auto simp: assms(3,4))
qed

theorem testplans_list_flags_witness:
  "adoClient example_ready \<noteq> None
   \<and> map_of (query example_list) ''filterActivePlans'' = Some (QStr ''False'')
   \<and> snd (handle example_env example_ready example_list) = (example_ready, [GetAllTestPlans True False])
   \<and> status (fst (handle example_env example_ready example_list)) = 200
   \<and> getField (payload (fst (handle example_env example_ready example_list))) ''filters''
     = Some (JObj [(''filterActivePlans'', JBool True), (''includePlanDetails'', JBool False)])"
proof -
  have r: "adoClient example_ready \<noteq> None"
    by (simp add: example_ready_def)
  have f: "True = (map_of [(''filterActivePlans'', QStr ''False'')] ''filterActivePlans'' \<noteq> Some (QStr ''false''))"
    by simp
  have i: "False = (map_of [(''filterActivePlans'', QStr ''False'')] ''includePlanDetails'' = Some (QStr ''true''))"
    by simp
  have v: "getAllTestPlans example_env True False
             = Inr [\<lparr>plan_id = Some 7, plan_name = Some ''Login'', plan_rest = []\<rparr>]"
    by (simp add: example_env_def)
  show ?thesis
    using testplans_list_flags [OF r example_list_def f i, of example_env] r v
    by (simp add: example_list_def)
qed

section \<open>Properties of the registries\<close>

subsection \<open>The store of suite objects\<close>

lemma markSuite_idem [simp]: "markSuite t i (markSuite t i suite) = markSuite t i suite"
  by (simp add: markSuite_def markTestCase_def)

lemma markSuites_objects:
  "fst (markSuites t i refs (objs, c)) r
   = (if r \<in> set refs then map_option (markSuite t i) (objs r) else objs r)"
proof (induction refs arbitrary: objs c)
  case Nil
  show ?case by simp
next
  case (Cons r0 rs)
  show ?case
  proof (cases "objs r0")
    case None
    then show ?thesis using Cons.IH [of objs c] by auto
  next
    case (Some suite)
    show ?thesis
    proof (cases "ts_testCaseId suite = t")
      case True
      have m: "suite\<lparr>ts_testCases := map (markTestCase i) (ts_testCases suite)\<rparr> = markSuite t i suite"
        using True by (simp add: markSuite_def)
      have "fst (markSuites t i (r0 # rs) (objs, c)) r
              = fst (markSuites t i rs (objs(r0 \<mapsto> markSuite t i suite), True)) r"
        using Some True by (simp add: m)
      also have "\<dots> = (if r \<in> set rs
                        then map_option (markSuite t i) ((objs(r0 \<mapsto> markSuite t i suite)) r)
                        else (objs(r0 \<mapsto> markSuite t i suite)) r)"
        by (rule Cons.IH)
      also have "\<dots> = (if r \<in> set (r0 # rs) then map_option (markSuite t i) (objs r) else objs r)"
        using Some by simp
      finally show ?thesis .
    next
      case False
      then have "markSuite t i suite = suite" by (simp add: markSuite_def)
      then show ?thesis
        using Some False Cons.IH [of objs c] by auto
    qed
  qed
qed

lemma markSuites_created: "snd (markSuites t i refs (objs, True))"
  by (induction refs arbitrary: objs) (auto split: option.splits)

lemma markSuites_flag:
  "snd (markSuites t i refs (objs, c))
   = (c \<or> (\<exists>r \<in> set refs. \<exists>suite. objs r = Some suite \<and> ts_testCaseId suite = t))"
proof (induction refs arbitrary: objs c)
  case Nil
  show ?case by simp
next
  case (Cons r0 rs)
  show ?case
  proof (cases "objs r0")
    case None
    then show ?thesis using Cons.IH [of objs c] by auto
  next
    case (Some suite)
    show ?thesis
    proof (cases "ts_testCaseId suite = t")
      case True
      with Some show ?thesis by (auto simp: markSuites_created)
    next
      case False
      with Some show ?thesis using Cons.IH [of objs c] by auto
    qed
  qed
qed

lemma deref_same:
  "(\<And>r. r \<in> set refs \<Longrightarrow> objects s' r = objects s r) \<Longrightarrow> deref s' refs = deref s refs"
  by (induction refs) (auto simp: deref_def split: option.splits)



lemma synthesize_frame:
  "synthesize ps s = (refs, s') \<Longrightarrow>
   connections s' = connections s \<and> testSuites s' = testSuites s \<and> adoClient s' = adoClient s
   \<and> nextRef s \<le> nextRef s'
   \<and> (\<forall>r < nextRef s. objects s' r = objects s r)
   \<and> (\<forall>r \<in> set refs. nextRef s \<le> r \<and> r < nextRef s')"
proof (induction ps arbitrary: s refs s')
  case Nil
  then show ?case by simp
next
  case (Cons p ps)
  show ?case
  proof (cases "plan_id p = None \<or> plan_id p = Some 0")
    case True
    then have "synthesize ps s = (refs, s')"
      using Cons.prems by (auto split: option.splits)
    then show ?thesis by (rule Cons.IH)
  next
    case False
    then obtain pid where pid: "plan_id p = Some pid" "pid \<noteq> 0" by auto
    define s1 where "s1 = snd (alloc (planSuite p pid) s)"
    obtain rs s2 where rec: "synthesize ps s1 = (rs, s2)" by (cases "synthesize ps s1")
    have res: "refs = nextRef s # rs" "s' = s2"
      using Cons.prems pid rec by (auto simp: s1_def alloc_def)
    have s1: "connections s1 = connections s" "testSuites s1 = testSuites s"
      "adoClient s1 = adoClient s" "nextRef s1 = Suc (nextRef s)"
      "\<forall>r < nextRef s. objects s1 r = objects s r"
      by (auto simp: s1_def alloc_def)
    from Cons.IH [OF rec] s1 res show ?thesis by auto
  qed
qed

subsection \<open>The invariant\<close>

lemma wf_initial_state: "wf_state initial_state"
  by (simp add: wf_state_def initial_state_def)

lemma wf_state_bound: "wf_state s \<Longrightarrow> testSuites s rid = Some refs \<Longrightarrow> r \<in> set refs \<Longrightarrow> r < nextRef s"
  by (auto simp: wf_state_def)

lemma wf_state_disjoint:
  "wf_state s \<Longrightarrow> rid \<noteq> rid' \<Longrightarrow> testSuites s rid = Some refs \<Longrightarrow> testSuites s rid' = Some refs'
   \<Longrightarrow> r \<in> set refs \<Longrightarrow> r \<notin> set refs'"
  unfolding wf_state_def by blast

text \<open>Storing a list for one resource: the invariant stays when the list is the old one with fresh references.\<close>

lemma wf_state_store:
  assumes wf: "wf_state s"
    and next': "nextRef s \<le> n"
    and refs: "\<And>r. r \<in> set refs \<Longrightarrow>
                 r < n \<and> (nextRef s \<le> r \<or> (\<exists>old. testSuites s rid = Some old \<and> r \<in> set old))"
  shows "wf_state (s\<lparr>objects := objs, nextRef := n, testSuites := (testSuites s)(rid \<mapsto> refs)\<rparr>)"
  unfolding wf_state_def
proof (intro conjI allI impI ballI)
  fix rid0 refs0 r
  assume a: "testSuites (s\<lparr>objects := objs, nextRef := n, testSuites := (testSuites s)(rid \<mapsto> refs)\<rparr>) rid0
             = Some refs0" and r: "r \<in> set refs0"
  show "r < nextRef (s\<lparr>objects := objs, nextRef := n, testSuites := (testSuites s)(rid \<mapsto> refs)\<rparr>)"
  proof (cases "rid0 = rid")
    case True
    with a r refs show ?thesis by auto
  next
    case False
    with a r wf_state_bound [OF wf, of rid0 refs0 r] next' show ?thesis by auto
  qed
next
  fix rid1 rid2 refs1 refs2
  assume ne: "rid1 \<noteq> rid2"
    and a1: "testSuites (s\<lparr>objects := objs, nextRef := n, testSuites := (testSuites s)(rid \<mapsto> refs)\<rparr>) rid1
             = Some refs1"
    and a2: "testSuites (s\<lparr>objects := objs, nextRef := n, testSuites := (testSuites s)(rid \<mapsto> refs)\<rparr>) rid2
             = Some refs2"
  have other: "set refs \<inter> set other = {}"
    if "rid' \<noteq> rid" and "testSuites s rid' = Some other" for rid' other
  proof -
    have "r \<notin> set other" if "r \<in> set refs" for r
    proof -
      from refs [OF that] have "nextRef s \<le> r \<or> (\<exists>old. testSuites s rid = Some old \<and> r \<in> set old)"
        by simp
      then show ?thesis
      proof
        assume "nextRef s \<le> r"
        then show ?thesis
          using wf_state_bound [OF wf \<open>testSuites s rid' = Some other\<close>, of r] by auto
      next
        assume "\<exists>old. testSuites s rid = Some old \<and> r \<in> set old"
        then obtain old where "testSuites s rid = Some old" "r \<in> set old" by auto
        then show ?thesis
          using wf_state_disjoint [OF wf _ _ \<open>testSuites s rid' = Some other\<close>, of rid old r]
                \<open>rid' \<noteq> rid\<close> by auto
      qed
    qed
    then show ?thesis by auto
  qed
  show "set refs1 \<inter> set refs2 = {}"
  proof (cases "rid1 = rid")
    case True
    with ne a1 a2 other [of rid2 refs2] show ?thesis by auto
  next
    case False
    note r1 = this
    show ?thesis
    proof (cases "rid2 = rid")
      case True
      with r1 a1 a2 other [of rid1 refs1] show ?thesis by auto
    next
      case False
      with r1 ne a1 a2 wf show ?thesis
        unfolding wf_state_def by simp
    qed
  qed
qed

text \<open>The invariant reads the \<open>testSuites\<close> map and the allocation counter only.\<close>

lemma wf_state_fields:
  assumes wf: "wf_state s"
    and ts: "testSuites s' = (testSuites s)(rid \<mapsto> refs)"
    and nx: "nextRef s \<le> nextRef s'"
    and refs: "\<And>r. r \<in> set refs \<Longrightarrow>
                 r < nextRef s' \<and> (nextRef s \<le> r \<or> (\<exists>old. testSuites s rid = Some old \<and> r \<in> set old))"
  shows "wf_state s'"
proof -
  have "wf_state (s\<lparr>objects := objects s', nextRef := nextRef s', testSuites := (testSuites s)(rid \<mapsto> refs)\<rparr>)"
    by (rule wf_state_store [OF wf nx refs])
  then show ?thesis
    by (simp add: wf_state_def ts)
qed

subsection \<open>What the three handlers write\<close>

lemma createIssue_state:
  assumes "connections s rid = Some c"
    and "getField (body req) ''title'' = Some title" and "truthy (Some title)"
    and "getField (body req) ''body'' = Some body'" and "truthy (Some body')"
    and old: "old = (case testSuites s rid of None \<Rightarrow> [] | Some refs \<Rightarrow> refs)"
    and hit: "hit = (\<exists>r \<in> set old. \<exists>suite. objects s r = Some suite \<and> ts_testCaseId suite = t)"
    and post: "s' = fst (snd (createIssue e s req rid t))"
  shows "connections s' = connections s \<and> adoClient s' = adoClient s
       \<and> testSuites s' = (testSuites s)(rid \<mapsto> (if hit then old else old @ [nextRef s]))
       \<and> nextRef s' = (if hit then nextRef s else Suc (nextRef s))
       \<and> (\<forall>r. objects s' r
               = (if r = nextRef s \<and> \<not> hit then Some (issueSuite t (randomId e 8) title body')
                  else if r \<in> set old then map_option (markSuite t (randomId e 8)) (objects s r)
                  else objects s r))"
proof -
  obtain objs created where m: "markSuites t (randomId e 8) old (objects s, False) = (objs, created)"
    by (cases "markSuites t (randomId e 8) old (objects s, False)")
  have objs: "objs r = (if r \<in> set old then map_option (markSuite t (randomId e 8)) (objects s r)
                        else objects s r)" for r
    using markSuites_objects [of t "randomId e 8" old "objects s" False r] m by simp
  have created: "created = hit"
    using markSuites_flag [of t "randomId e 8" old "objects s" False] m hit by simp
  show ?thesis
  proof (cases hit)
    case True
    then show ?thesis
      using assms(1-5) m [unfolded old] created objs old
      by (simp add: post createIssue_def Let_def alloc_def split: option.splits)
  next
    case False
    then show ?thesis
      using assms(1-5) m [unfolded old] created objs old
      by (simp add: post createIssue_def Let_def alloc_def issueSuite_def split: option.splits)
  qed
qed

lemma createIssue_rejected:
  assumes "connections s rid = None \<or> \<not> truthy (getField (body req) ''title'')
           \<or> \<not> truthy (getField (body req) ''body'')"
  shows "snd (createIssue e s req rid t) = (s, [])
       \<and> status (fst (createIssue e s req rid t)) = (if connections s rid = None then 404 else 400)"
  using assms
  by (auto simp: createIssue_def connectionNotFound_def json_status_def split: option.splits)

lemma createIssue_cases:
  obtains (rejected) "fst (snd (createIssue e s req rid t)) = s"
  | (stored) c title body' where "connections s rid = Some c"
      and "getField (body req) ''title'' = Some title" and "truthy (Some title)"
      and "getField (body req) ''body'' = Some body'" and "truthy (Some body')"
proof (cases "connections s rid = None \<or> \<not> truthy (getField (body req) ''title'')
              \<or> \<not> truthy (getField (body req) ''body'')")
  case True
  then show ?thesis using createIssue_rejected [of s rid req e t] rejected by simp
next
  case False
  then obtain c title body' where "connections s rid = Some c"
    "getField (body req) ''title'' = Some title" "getField (body req) ''body'' = Some body'"
    by (cases "getField (body req) ''title''"; cases "getField (body req) ''body''") auto
  with False show ?thesis using stored by auto
qed

lemma adoPlans_cases:
  obtains (rejected) "fst (snd (adoPlans e s req rid)) = s"
  | (stored) testPlans suites s1 where "getAllTestPlans e True True = Inr testPlans"
      and "synthesize testPlans s = (suites, s1)"
      and "fst (snd (adoPlans e s req rid)) = s1\<lparr>testSuites := (testSuites s1)(rid \<mapsto> suites)\<rparr>"
proof (cases "connections s rid")
  case None
  then show ?thesis using rejected by (simp add: adoPlans_def)
next
  case (Some c)
  show ?thesis
  proof (cases "getAllTestPlans e True True")
    case (Inl err)
    with Some show ?thesis using rejected by (simp add: adoPlans_def)
  next
    case (Inr testPlans)
    obtain suites s1 where "synthesize testPlans s = (suites, s1)"
      by (cases "synthesize testPlans s")
    with Some Inr show ?thesis using stored by (simp add: adoPlans_def Let_def)
  qed
qed

lemma saveConnection_state:
  "fst (snd (saveConnection e s req rid)) = s
   \<or> (\<exists>c. fst (snd (saveConnection e s req rid)) = s\<lparr>connections := (connections s)(rid \<mapsto> c)\<rparr>)"
  by (auto simp: saveConnection_def Let_def split: option.splits)

lemma saveConnection_cases:
  obtains (rejected) "fst (snd (saveConnection e s req rid)) = s"
  | (stored) c where "fst (snd (saveConnection e s req rid)) = s\<lparr>connections := (connections s)(rid \<mapsto> c)\<rparr>"
  using saveConnection_state [of e s req rid] by blast

subsection \<open>Frame and invariant\<close>

lemma deref_connections: "deref (s\<lparr>connections := c\<rparr>) = deref s"
  by (rule ext) (simp add: deref_def)

lemma saveConnection_frame:
  assumes "rid' \<noteq> rid"
  shows "connections (fst (snd (saveConnection e s req rid))) rid' = connections s rid'
       \<and> suitesOf (fst (snd (saveConnection e s req rid))) rid' = suitesOf s rid'
       \<and> (wf_state s \<longrightarrow> wf_state (fst (snd (saveConnection e s req rid))))"
  using assms
  by (cases rule: saveConnection_cases [of e s req rid])
     (auto simp: suitesOf_def deref_connections wf_state_def)

lemma adoPlans_frame:
  assumes wf: "wf_state s" and ne: "rid' \<noteq> rid"
  shows "connections (fst (snd (adoPlans e s req rid))) rid' = connections s rid'
       \<and> suitesOf (fst (snd (adoPlans e s req rid))) rid' = suitesOf s rid'
       \<and> wf_state (fst (snd (adoPlans e s req rid)))"
proof (cases rule: adoPlans_cases [of e s req rid])
  case rejected
  with wf show ?thesis by simp
next
  case (stored testPlans suites s1)
  define s' where "s' = s1\<lparr>testSuites := (testSuites s1)(rid \<mapsto> suites)\<rparr>"
  note syn = synthesize_frame [OF stored(2)]
  have conn: "connections s' rid' = connections s rid'"
    using syn by (simp add: s'_def)
  have suites: "suitesOf s' rid' = suitesOf s rid'"
  proof (cases "testSuites s rid'")
    case None
    with ne syn show ?thesis by (simp add: suitesOf_def s'_def)
  next
    case (Some refs')
    have "deref s' refs' = deref s refs'"
    proof (rule deref_same)
      fix r assume "r \<in> set refs'"
      then have "r < nextRef s" by (rule wf_state_bound [OF wf Some])
      with syn show "objects s' r = objects s r" by (simp add: s'_def)
    qed
    with Some ne syn show ?thesis by (simp add: suitesOf_def s'_def)
  qed
  have "wf_state s'"
  proof (rule wf_state_fields [OF wf])
    show "testSuites s' = (testSuites s)(rid \<mapsto> suites)"
      using syn by (simp add: s'_def)
    show "nextRef s \<le> nextRef s'"
      using syn by (simp add: s'_def)
    show "r < nextRef s' \<and> (nextRef s \<le> r \<or> (\<exists>old. testSuites s rid = Some old \<and> r \<in> set old))"
      if "r \<in> set suites" for r
      using syn that by (simp add: s'_def)
  qed
  with conn suites show ?thesis
    by (simp add: stored(3) s'_def)
qed

lemma createIssue_frame:
  assumes wf: "wf_state s" and ne: "rid' \<noteq> rid"
  shows "connections (fst (snd (createIssue e s req rid t))) rid' = connections s rid'
       \<and> suitesOf (fst (snd (createIssue e s req rid t))) rid' = suitesOf s rid'
       \<and> wf_state (fst (snd (createIssue e s req rid t)))"
proof (cases rule: createIssue_cases [of e s req rid t])
  case rejected
  with wf show ?thesis by simp
next
  case (stored c title body')
  define old where "old = (case testSuites s rid of None \<Rightarrow> [] | Some refs \<Rightarrow> refs)"
  define hit where "hit = (\<exists>r \<in> set old. \<exists>suite. objects s r = Some suite \<and> ts_testCaseId suite = t)"
  define s' where "s' = fst (snd (createIssue e s req rid t))"
  note st = createIssue_state [OF stored old_def hit_def s'_def]
  have oldb: "r < nextRef s" if "r \<in> set old" for r
    using that by (cases "testSuites s rid") (auto simp: old_def dest: wf_state_bound [OF wf])
  have suites: "suitesOf s' rid' = suitesOf s rid'"
  proof (cases "testSuites s rid'")
    case None
    with ne st show ?thesis by (simp add: suitesOf_def)
  next
    case (Some refs')
    have "deref s' refs' = deref s refs'"
    proof (rule deref_same)
      fix r assume r: "r \<in> set refs'"
      then have lt: "r < nextRef s" by (rule wf_state_bound [OF wf Some])
      have "r \<notin> set old"
        using wf_state_disjoint [OF wf ne Some, of _ r] r
        by (auto simp: old_def split: option.splits)
      with lt st show "objects s' r = objects s r" by simp
    qed
    with Some ne st show ?thesis by (simp add: suitesOf_def)
  qed
  have "wf_state s'"
  proof (rule wf_state_fields [OF wf])
    show "testSuites s' = (testSuites s)(rid \<mapsto> (if hit then old else old @ [nextRef s]))"
      using st by simp
    show "nextRef s \<le> nextRef s'"
      using st by simp
    show "r < nextRef s' \<and> (nextRef s \<le> r \<or> (\<exists>old. testSuites s rid = Some old \<and> r \<in> set old))"
      if "r \<in> set (if hit then old else old @ [nextRef s])" for r
    proof (cases "r \<in> set old")
      case True
      then have "\<exists>old. testSuites s rid = Some old \<and> r \<in> set old"
        by (cases "testSuites s rid") (auto simp: old_def)
      with oldb [OF True] st show ?thesis by (auto split: if_splits)
    next
      case False
      with that have "r = nextRef s" "\<not> hit" by (auto split: if_splits)
      with st show ?thesis by simp
    qed
  qed
  with st suites show ?thesis by (simp add: s'_def)
qed

text \<open>
  Claim C9. In a well-formed store, \<open>saveConnection\<close>, the suite synthesis of
  \<open>ado_plans\<close> and \<open>createIssue\<close>, run for resource \<open>rid\<close>, leave the stored connection
  and the stored suites of every other resource as they were; the store they leave is
  well-formed again.
\<close>

theorem registry_frame:
  assumes "wf_state s" and "rid' \<noteq> rid"
    and "out \<in> {saveConnection e s req rid, adoPlans e s req rid, createIssue e s req rid t}"
  shows "connections (fst (snd out)) rid' = connections s rid'
       \<and> suitesOf (fst (snd out)) rid' = suitesOf s rid'
       \<and> wf_state (fst (snd out))"
  using assms saveConnection_frame [OF assms(2), of e s req]
        adoPlans_frame [OF assms(1,2), of e req] createIssue_frame [OF assms(1,2), of e req t]
  by auto

lemma wf_example_store: "wf_state example_store"
  by (simp add: wf_state_def example_store_def)

lemma createIssue_example:
  "createIssue example_env example_store example_issue ''r1'' ''42''
   = (json_status 200 [(''suites'', JArr [testSuite_json (issueSuite ''42'' ''4fzyo82m'' (JStr ''t'') (JStr ''b''))])],
      example_store\<lparr>objects := (objects example_store)(1 \<mapsto> issueSuite ''42'' ''4fzyo82m'' (JStr ''t'') (JStr ''b'')),
                    nextRef := 2,
                    testSuites := (testSuites example_store)(''r1'' \<mapsto> [1])\<rparr>,
      [])"
  by (simp add: createIssue_def example_store_def example_issue_def example_env_def randomId_def
                Let_def alloc_def issueSuite_def suites_response_def deref_def logError_def
                example_connection_def)

theorem registry_frame_witness:
  "wf_state example_store \<and> ''r2'' \<noteq> ''r1''
   \<and> suitesOf (fst (snd (createIssue example_env example_store example_issue ''r1'' ''42''))) ''r1''
     = Some [issueSuite ''42'' ''4fzyo82m'' (JStr ''t'') (JStr ''b'')]
   \<and> suitesOf example_store ''r1'' = None
   \<and> suitesOf (fst (snd (createIssue example_env example_store example_issue ''r1'' ''42''))) ''r2''
     = Some [example_suite]
   \<and> connections (fst (snd (createIssue example_env example_store example_issue ''r1'' ''42''))) ''r2''
     = Some (example_connection ''r2'')
   \<and> wf_state (fst (snd (createIssue example_env example_store example_issue ''r1'' ''42'')))"
proof -
  have ne: "''r2'' \<noteq> ''r1''" by simp
  have m: "createIssue example_env example_store example_issue ''r1'' ''42''
           \<in> {saveConnection example_env example_store example_issue ''r1'',
               adoPlans example_env example_store example_issue ''r1'',
               createIssue example_env example_store example_issue ''r1'' ''42''}"
    by simp
  have before: "suitesOf example_store ''r2'' = Some [example_suite]"
    "suitesOf example_store ''r1'' = None"
    "connections example_store ''r2'' = Some (example_connection ''r2'')"
    by (simp_all add: suitesOf_def deref_def example_store_def)
  have after: "suitesOf (fst (snd (createIssue example_env example_store example_issue ''r1'' ''42''))) ''r1''
     = Some [issueSuite ''42'' ''4fzyo82m'' (JStr ''t'') (JStr ''b'')]"
    unfolding createIssue_example by (simp add: suitesOf_def deref_def example_store_def)
  show ?thesis
    using registry_frame [OF wf_example_store ne m] wf_example_store before after
    by simp
qed

section \<open>The resource handlers on their own\<close>

text \<open>
  The handlers behind the 404 middleware, had a request reached them: saving and reading a
  connection, and the simulated issue.
\<close>

lemma saveConnection_stores:
  assumes "getField (body req) ''github_url'' = Some g" and "truthy (Some g)"
    and "getField (body req) ''prd'' = Some p" and "truthy (Some p)"
    and "getField (body req) ''ado_url'' = Some a" and "truthy (Some a)"
    and "getField (body req) ''website_url'' = Some w" and "truthy (Some w)"
  shows "fst (snd (saveConnection e s req rid))
         = s\<lparr>connections := (connections s)(rid \<mapsto>
               \<lparr>resourceId = rid, connectionId = randomId e 10, github_url = g, prd = p,
                ado_url = a, website_url = w\<rparr>)\<rparr>"
  using assms by (simp add: saveConnection_def Let_def)

lemma saveConnection_getConnection:
  assumes "getField (body req) ''github_url'' = Some g" and "truthy (Some g)"
    and "getField (body req) ''prd'' = Some p" and "truthy (Some p)"
    and "getField (body req) ''ado_url'' = Some a" and "truthy (Some a)"
    and "getField (body req) ''website_url'' = Some w" and "truthy (Some w)"
  shows "fst (getConnection e' (fst (snd (saveConnection e s req rid))) req' rid)
         = json_status 200
             [(''github_url'', g), (''prd'', p), (''ado_url'', a), (''website_url'', w),
              (''resourceId'', JStr rid), (''connectionId'', JStr (randomId e 10))]"
  by (simp add: saveConnection_stores [OF assms] getConnection_def)

lemma saveConnection_overwrites:
  assumes "getField (body req2) ''github_url'' = Some g" and "truthy (Some g)"
    and "getField (body req2) ''prd'' = Some p" and "truthy (Some p)"
    and "getField (body req2) ''ado_url'' = Some a" and "truthy (Some a)"
    and "getField (body req2) ''website_url'' = Some w" and "truthy (Some w)"
  shows "connections (fst (snd (saveConnection e2 (fst (snd (saveConnection e1 s req1 rid))) req2 rid))) rid
         = Some \<lparr>resourceId = rid, connectionId = randomId e2 10, github_url = g, prd = p,
                 ado_url = a, website_url = w\<rparr>"
  by (simp add: saveConnection_stores [OF assms])

text \<open>The connection id is empty when \<open>Math.random()\<close> returns 0, whose rendering is "0".\<close>

lemma randomId_zero: "random36 e = ''0'' \<Longrightarrow> randomId e 10 = []"
  by (simp add: randomId_def)

lemma markSuite_hit:
  assumes "ts_testCaseId suite = t" and "tc \<in> set (ts_testCases (markSuite t i suite))"
  shows "tc_issueId tc = Some i \<and> tc_status tc = Some ''Creating''"
  using assms by (auto simp: markSuite_def markTestCase_def)




lemma createIssue_no_connection:
  "connections s rid = None \<Longrightarrow>
   createIssue e s req rid t = (connectionNotFound rid, s, []) \<and> status (connectionNotFound rid) = 404"
  by (simp add: createIssue_def connectionNotFound_def json_status_def)



section \<open>No request changes the registries\<close>

lemma handle_state_unchanged: "fst (snd (handle e s req)) = s"
proof (cases "dispatch app req")
  case None
  then show ?thesis by (simp add: handle_unfold)
next
  case (Some d)
  then obtain gated h params where d: "dispatch app req = Some (gated, h, params)"
    by (cases d) auto
  note un = resource_handlers_unreachable [OF d]
  show ?thesis
  proof (cases "gated \<and> adoClient s = None")
    case True
    with d show ?thesis by (simp add: handle_unfold)
  next
    case False
    then have "handle e s req = run e s req h params"
      using d by (auto simp: handle_unfold)
    then show ?thesis
      using un
      by (cases h) (simp_all add: run_def api_def with1_def with2_def split: list.splits)
  qed
qed

end
